theory Spec2Isabelle
  imports Main
begin

section \<open>JavaScript strings and values\<close>

text \<open>
  A JavaScript string is a sequence of UTF-16 code units. A code unit is modelled by its
  number (0 .. 65535); string literals of the source are written \<open>js ''...''\<close>.
\<close>

type_synonym code_unit = nat
type_synonym jsstring = "code_unit list"

definition js :: "string \<Rightarrow> jsstring" where
  "js s = map of_char s"

text \<open>
  The values a field of a parsed JSON body (or a path parameter) can hold; a missing
  property reads as \<open>JUndefined\<close>. Arrays and objects are \<open>JObject\<close>; JSON numbers are
  abstracted by integers (the code only ever asks whether the value is a string).
\<close>

datatype jsval =
    JUndefined
  | JNull
  | JBoolean bool
  | JNumber int
  | JString jsstring
  | JObject

fun typeof :: "jsval \<Rightarrow> string" where
  "typeof JUndefined = ''undefined''"
| "typeof JNull = ''object''"
| "typeof (JBoolean b) = ''boolean''"
| "typeof (JNumber n) = ''number''"
| "typeof (JString s) = ''string''"
| "typeof JObject = ''object''"

text \<open>ToBoolean, as applied by the operator \<open>!\<close>.\<close>

fun truthy :: "jsval \<Rightarrow> bool" where
  "truthy JUndefined = False"
| "truthy JNull = False"
| "truthy (JBoolean b) = b"
| "truthy (JNumber n) = (n \<noteq> 0)"
| "truthy (JString s) = (s \<noteq> [])"
| "truthy JObject = True"

text \<open>
  \<open>String.prototype.trim\<close> removes leading and trailing white space and line
  terminators: TAB, LF, VT, FF, CR, SP, NBSP, U+1680, U+2000 .. U+200A, U+2028, U+2029,
  U+202F, U+205F, U+3000 and U+FEFF.
\<close>

definition is_white_space :: "code_unit \<Rightarrow> bool" where
  "is_white_space c \<longleftrightarrow>
     c \<in> set [9, 10, 11, 12, 13, 32, 160, 5760, 8232, 8233, 8239, 8287, 12288, 65279]
     \<or> (8192 \<le> c \<and> c \<le> 8202)"

definition trim :: "jsstring \<Rightarrow> jsstring" where
  "trim s = rev (dropWhile is_white_space (rev (dropWhile is_white_space s)))"

text \<open>A thrown \<open>Error\<close>: its message and the optional \<open>statusCode\<close> property.\<close>

record js_error =
  statusCode :: "int option"
  message :: jsstring

section \<open>requireString\<close>

text \<open>
  \<^verbatim>\<open>
  function requireString(val, name) {
    if (!val || typeof val !== "string" || !val.trim()) {
      const err = new Error(`${name} is required`);
      err.statusCode = 400;
      throw err;
    }
    return val.trim();
  }
  \<close>
\<close>

definition required_error :: "string \<Rightarrow> js_error" where
  "required_error name = \<lparr>statusCode = Some 400, message = js name @ js '' is required''\<rparr>"

definition requireString :: "jsval \<Rightarrow> string \<Rightarrow> js_error + jsstring" where
  "requireString val name =
     (if \<not> truthy val \<or> typeof val \<noteq> ''string'' then Inl (required_error name)
      else case val of
             JString s \<Rightarrow>
               if \<not> truthy (JString (trim s)) then Inl (required_error name)
               else Inr (trim s)
           | _ \<Rightarrow> Inl (required_error name))"

section \<open>The sanitised name of the storage key\<close>

text \<open>
  \<^verbatim>\<open>const safeName = originalFilename.replace(/[^\w.\-]+/g, "_");\<close>

  The character class \<open>[\w.\-]\<close> (no \<open>i\<close> or \<open>u\<close> flag) holds the code units of
  \<open>A-Z\<close>, \<open>a-z\<close>, \<open>0-9\<close>, \<open>_\<close>, \<open>.\<close> and \<open>-\<close>. The pattern is its complement under
  \<open>+\<close>: with the flag \<open>g\<close> every maximal run of code units outside the class is one
  match, and each match is replaced by one \<open>_\<close> (code unit 95).
\<close>

definition is_word_dot_hyphen :: "code_unit \<Rightarrow> bool" where
  "is_word_dot_hyphen c \<longleftrightarrow>
     (65 \<le> c \<and> c \<le> 90) \<or> (97 \<le> c \<and> c \<le> 122) \<or> (48 \<le> c \<and> c \<le> 57)
     \<or> c = 95 \<or> c = 46 \<or> c = 45"

function safeName :: "jsstring \<Rightarrow> jsstring" where
  "safeName [] = []"
| "safeName (c # cs) =
     (if is_word_dot_hyphen c then c # safeName cs
      else 95 # safeName (dropWhile (\<lambda>d. \<not> is_word_dot_hyphen d) cs))"
  by pat_completeness auto
termination
  by (relation "measure length") (auto simp: length_dropWhile_le less_Suc_eq_le)

text \<open>
  The replacement the specification describes, one \<open>_\<close> for each code unit outside the
  class (the pattern without \<open>+\<close>), for comparison with \<open>safeName\<close>.
\<close>

definition spec_safeName :: "jsstring \<Rightarrow> jsstring" where
  "spec_safeName s = map (\<lambda>c. if is_word_dot_hyphen c then c else 95) s"

section \<open>Configuration, metadata store and object store\<close>

text \<open>
  The configuration read from the environment at start-up. \<open>PRESIGN_EXPIRES_SECONDS\<close> is
  the result of \<open>parseInt\<close>, taken here as an integer.
\<close>

record config =
  S3_BUCKET :: jsstring
  DDB_TABLE :: jsstring
  PRESIGN_EXPIRES_SECONDS :: int

text \<open>
  An item of the table is a document: a map from attribute names to values. The
  handlers write strings, integers and \<open>null\<close>. A property the item does not have reads
  as \<open>undefined\<close> (\<open>None\<close>). The table maps the primary key \<open>fileId\<close> to the item.
\<close>

datatype attr = S jsstring | N int | NULL

type_synonym item = "string \<rightharpoonup> attr"
type_synonym ddb_table = "jsstring \<rightharpoonup> item"

text \<open>The calls a handler makes to the two stores, in the order it makes them.\<close>

datatype command =
    GetSignedUrlPut
  | GetSignedUrlGet
  | HeadObjectCommand
  | PutCommand
  | GetCommand
  | UpdateCommand

record world =
  table :: ddb_table
  calls :: "command list"

record head_output =
  ContentLength :: "int option"
  ContentType :: "jsstring option"

text \<open>
  What one request reads from outside the process: the identifier \<open>uuidv4()\<close> returns,
  the clock (\<open>new Date().toISOString()\<close> and \<open>Date.now()\<close>, in milliseconds), the answers
  of the object store (an error is \<open>Inl\<close>), and the faults of the calls to the metadata
  store (\<open>ddb_fault c = Some e\<close>: the call \<open>c\<close> throws \<open>e\<close> and writes nothing).
\<close>

record env =
  uuidv4 :: jsstring
  new_Date_toISOString :: jsstring
  Date_now :: int
  getSignedUrl_put :: "jsstring \<Rightarrow> jsstring \<Rightarrow> jsstring \<Rightarrow> int \<Rightarrow> js_error + jsstring"
  getSignedUrl_get :: "attr option \<Rightarrow> attr option \<Rightarrow> jsstring \<Rightarrow> int \<Rightarrow> js_error + jsstring"
  headObject :: "attr option \<Rightarrow> attr option \<Rightarrow> js_error + head_output"
  ddb_fault :: "command \<Rightarrow> js_error option"

definition logged :: "command \<Rightarrow> world \<Rightarrow> world" where
  "logged c w = w\<lparr>calls := calls w @ [c]\<rparr>"

text \<open>\<open>PutCommand\<close>: the item replaces whatever the table holds under the key.\<close>

definition ddb_put :: "env \<Rightarrow> jsstring \<Rightarrow> item \<Rightarrow> world \<Rightarrow> (js_error + unit) \<times> world" where
  "ddb_put e key it w =
     (case ddb_fault e PutCommand of
        Some err \<Rightarrow> (Inl err, logged PutCommand w)
      | None \<Rightarrow> (Inr (), logged PutCommand (w\<lparr>table := (table w)(key \<mapsto> it)\<rparr>)))"

definition ddb_get :: "env \<Rightarrow> jsstring \<Rightarrow> world \<Rightarrow> (js_error + item option) \<times> world" where
  "ddb_get e key w =
     (case ddb_fault e GetCommand of
        Some err \<Rightarrow> (Inl err, logged GetCommand w)
      | None \<Rightarrow> (Inr (table w key), logged GetCommand w))"

text \<open>
  \<open>UpdateCommand\<close>: the update expression is applied to the item under the key (to an
  item holding only the key when there is none); an expression the store rejects throws
  and writes nothing.
\<close>

definition validation_exception :: js_error where
  "validation_exception = \<lparr>statusCode = None, message = js ''ValidationException''\<rparr>"

definition ddb_update ::
  "env \<Rightarrow> jsstring \<Rightarrow> (item \<Rightarrow> js_error + item) \<Rightarrow> world \<Rightarrow> (js_error + unit) \<times> world" where
  "ddb_update e key upd w =
     (case ddb_fault e UpdateCommand of
        Some err \<Rightarrow> (Inl err, logged UpdateCommand w)
      | None \<Rightarrow>
          (case upd (case table w key of None \<Rightarrow> [''fileId'' \<mapsto> S key] | Some it \<Rightarrow> it) of
             Inl err \<Rightarrow> (Inl err, logged UpdateCommand w)
           | Inr it' \<Rightarrow> (Inr (), logged UpdateCommand (w\<lparr>table := (table w)(key \<mapsto> it')\<rparr>))))"

text \<open>
  \<^verbatim>\<open>SET #s = :ready, sizeBytes = :sz, contentType = :ct\<close> with \<open>:ready = "READY"\<close>. The
  client drops undefined values (\<open>removeUndefinedValues\<close>), so an undefined \<open>:sz\<close> or
  \<open>:ct\<close> leaves the expression with an unbound name, which the store rejects.
\<close>

definition set_ready :: "attr option \<Rightarrow> attr option \<Rightarrow> item \<Rightarrow> js_error + item" where
  "set_ready sz ct it =
     (case sz of
        None \<Rightarrow> Inl validation_exception
      | Some sizeBytes \<Rightarrow>
     (case ct of
        None \<Rightarrow> Inl validation_exception
      | Some storedContentType \<Rightarrow>
          Inr (it(''status'' \<mapsto> S (js ''READY''),
                  ''sizeBytes'' \<mapsto> sizeBytes,
                  ''contentType'' \<mapsto> storedContentType))))"

text \<open>
  \<^verbatim>\<open>SET downloadCount = if_not_exists(downloadCount, :zero) + :one\<close> with \<open>:zero = 0\<close> and
  \<open>:one = 1\<close>. The store rejects the addition when the attribute is not a number.
\<close>

definition increment_downloadCount :: "item \<Rightarrow> js_error + item" where
  "increment_downloadCount it =
     (case it ''downloadCount'' of
        None \<Rightarrow> Inr (it(''downloadCount'' \<mapsto> N (0 + 1)))
      | Some (N n) \<Rightarrow> Inr (it(''downloadCount'' \<mapsto> N (n + 1)))
      | Some _ \<Rightarrow> Inl validation_exception)"

section \<open>Responses\<close>

text \<open>The JSON bodies the handlers send, one constructor for each shape.\<close>

datatype json_body =
    ErrorJson jsstring
  | PresignJson jsstring jsstring jsstring int
  | CompleteJson bool jsstring "attr option" "attr option"
  | ItemJson item
  | ShareJson jsstring jsstring int

record response =
  status :: int
  body :: json_body

text \<open>
  \<^verbatim>\<open>
  app.use((err, req, res, next) => {
    const status = err.statusCode || 500;
    res.status(status).json({ error: err.message || "Internal Server Error" });
  });
  \<close>
\<close>

definition error_handler :: "js_error \<Rightarrow> response" where
  "error_handler err =
     \<lparr>status = (case statusCode err of None \<Rightarrow> 500 | Some c \<Rightarrow> if c \<noteq> 0 then c else 500),
      body = ErrorJson (if message err \<noteq> [] then message err else js ''Internal Server Error'')\<rparr>"

text \<open>
  A template literal converts the interpolated value to a string: a string is itself,
  an integer is printed in decimal (as JavaScript prints it below \<open>10\<^sup>2\<^sup>1\<close>), \<open>null\<close> and
  \<open>undefined\<close> by their names.
\<close>

fun digits :: "nat \<Rightarrow> jsstring" where
  "digits n = (if n < 10 then [48 + n] else digits (n div 10) @ [48 + n mod 10])"

declare digits.simps [simp del]

definition ToString :: "attr option \<Rightarrow> jsstring" where
  "ToString v =
     (case v of
        None \<Rightarrow> js ''undefined''
      | Some NULL \<Rightarrow> js ''null''
      | Some (S s) \<Rightarrow> s
      | Some (N n) \<Rightarrow> (if n < 0 then 45 # digits (nat (- n)) else digits (nat n)))"

text \<open>
  The operator \<open>??\<close>: the right operand when the left one is \<open>undefined\<close> (\<open>None\<close>)
  or \<open>null\<close>, the left operand otherwise.
\<close>

definition nullish :: "attr option \<Rightarrow> attr option \<Rightarrow> attr option" where
  "nullish a b = (case a of None \<Rightarrow> b | Some NULL \<Rightarrow> b | Some v \<Rightarrow> Some v)"

text \<open>The three calls to the object store; each is entered in the log of calls.\<close>

definition s3_presign_put ::
  "env \<Rightarrow> jsstring \<Rightarrow> jsstring \<Rightarrow> jsstring \<Rightarrow> int \<Rightarrow> world \<Rightarrow> (js_error + jsstring) \<times> world" where
  "s3_presign_put e bucket key ctype expiresIn w =
     (getSignedUrl_put e bucket key ctype expiresIn, logged GetSignedUrlPut w)"

definition s3_presign_get ::
  "env \<Rightarrow> attr option \<Rightarrow> attr option \<Rightarrow> jsstring \<Rightarrow> int \<Rightarrow> world \<Rightarrow> (js_error + jsstring) \<times> world" where
  "s3_presign_get e bucket key disposition expiresIn w =
     (getSignedUrl_get e bucket key disposition expiresIn, logged GetSignedUrlGet w)"

definition s3_head ::
  "env \<Rightarrow> attr option \<Rightarrow> attr option \<Rightarrow> world \<Rightarrow> (js_error + head_output) \<times> world" where
  "s3_head e bucket key w = (headObject e bucket key, logged HeadObjectCommand w)"

section \<open>The four handlers\<close>

text \<open>
  A handler takes the configuration, what the request reads from outside, the object
  \<open>req.body\<close> or \<open>req.params\<close> (a property that is not there reads as \<open>JUndefined\<close>) and
  the world, and returns the response with the world after the request. A thrown error
  is caught and handed to the error handler (\<open>next(e)\<close>).
\<close>

type_synonym js_object = "string \<Rightarrow> jsval"

definition new_item ::
  "jsstring \<Rightarrow> jsstring \<Rightarrow> jsstring \<Rightarrow> jsstring \<Rightarrow> jsstring \<Rightarrow> jsstring \<Rightarrow> int \<Rightarrow> item" where
  "new_item fileId bucket s3Key originalFilename contentType createdAt expiresAt =
     [''fileId'' \<mapsto> S fileId,
      ''s3Bucket'' \<mapsto> S bucket,
      ''s3Key'' \<mapsto> S s3Key,
      ''originalFilename'' \<mapsto> S originalFilename,
      ''contentType'' \<mapsto> S contentType,
      ''status'' \<mapsto> S (js ''UPLOADING''),
      ''createdAt'' \<mapsto> S createdAt,
      ''expiresAt'' \<mapsto> N expiresAt,
      ''downloadCount'' \<mapsto> N 0]"

definition presign_upload :: "config \<Rightarrow> env \<Rightarrow> js_object \<Rightarrow> world \<Rightarrow> response \<times> world" where
  "presign_upload cfg e req_body w =
     (case requireString (req_body ''originalFilename'') ''originalFilename'' of
        Inl err \<Rightarrow> (error_handler err, w)
      | Inr originalFilename \<Rightarrow>
     (case requireString (req_body ''contentType'') ''contentType'' of
        Inl err \<Rightarrow> (error_handler err, w)
      | Inr contentType \<Rightarrow>
          let fileId = uuidv4 e;
              s3Key = js ''uploads/'' @ fileId @ js ''/'' @ safeName originalFilename;
              createdAt = new_Date_toISOString e;
              expiresAt = Date_now e div 1000 + PRESIGN_EXPIRES_SECONDS cfg
          in
     (case s3_presign_put e (S3_BUCKET cfg) s3Key contentType (PRESIGN_EXPIRES_SECONDS cfg) w of
        (Inl err, w1) \<Rightarrow> (error_handler err, w1)
      | (Inr uploadUrl, w1) \<Rightarrow>
     (case ddb_put e fileId
             (new_item fileId (S3_BUCKET cfg) s3Key originalFilename contentType createdAt expiresAt)
             w1 of
        (Inl err, w2) \<Rightarrow> (error_handler err, w2)
      | (Inr _, w2) \<Rightarrow>
          (\<lparr>status = 200, body = PresignJson fileId uploadUrl s3Key expiresAt\<rparr>, w2)))))"

definition complete_upload :: "config \<Rightarrow> env \<Rightarrow> js_object \<Rightarrow> world \<Rightarrow> response \<times> world" where
  "complete_upload cfg e req_body w =
     (case requireString (req_body ''fileId'') ''fileId'' of
        Inl err \<Rightarrow> (error_handler err, w)
      | Inr fileId \<Rightarrow>
     (case ddb_get e fileId w of
        (Inl err, w1) \<Rightarrow> (error_handler err, w1)
      | (Inr None, w1) \<Rightarrow> (\<lparr>status = 404, body = ErrorJson (js ''fileId not found'')\<rparr>, w1)
      | (Inr (Some it), w1) \<Rightarrow>
          if it ''status'' \<noteq> Some (S (js ''UPLOADING''))
          then (\<lparr>status = 400,
                 body = ErrorJson (js ''invalid status: '' @ ToString (it ''status''))\<rparr>, w1)
          else
     (case s3_head e (it ''s3Bucket'') (it ''s3Key'') w1 of
        (Inl err, w2) \<Rightarrow> (error_handler err, w2)
      | (Inr head, w2) \<Rightarrow>
          let sizeBytes = nullish (map_option N (ContentLength head)) (Some NULL);
              storedContentType = nullish (map_option S (ContentType head)) (it ''contentType'')
          in
     (case ddb_update e fileId (set_ready sizeBytes storedContentType) w2 of
        (Inl err, w3) \<Rightarrow> (error_handler err, w3)
      | (Inr _, w3) \<Rightarrow>
          (\<lparr>status = 200, body = CompleteJson True fileId sizeBytes storedContentType\<rparr>, w3)))))"

definition get_metadata :: "config \<Rightarrow> env \<Rightarrow> js_object \<Rightarrow> world \<Rightarrow> response \<times> world" where
  "get_metadata cfg e req_params w =
     (case requireString (req_params ''fileId'') ''fileId'' of
        Inl err \<Rightarrow> (error_handler err, w)
      | Inr fileId \<Rightarrow>
     (case ddb_get e fileId w of
        (Inl err, w1) \<Rightarrow> (error_handler err, w1)
      | (Inr None, w1) \<Rightarrow> (\<lparr>status = 404, body = ErrorJson (js ''not found'')\<rparr>, w1)
      | (Inr (Some it), w1) \<Rightarrow> (\<lparr>status = 200, body = ItemJson it\<rparr>, w1)))"

text \<open>
  The content disposition is \<^verbatim>\<open>attachment; filename="${meta.Item.originalFilename}"\<close>;
  the double quote is code unit 34.
\<close>

definition content_disposition :: "attr option \<Rightarrow> jsstring" where
  "content_disposition originalFilename =
     js ''attachment; filename='' @ [34] @ ToString originalFilename @ [34]"

definition share :: "config \<Rightarrow> env \<Rightarrow> js_object \<Rightarrow> world \<Rightarrow> response \<times> world" where
  "share cfg e req_params w =
     (case requireString (req_params ''fileId'') ''fileId'' of
        Inl err \<Rightarrow> (error_handler err, w)
      | Inr fileId \<Rightarrow>
     (case ddb_get e fileId w of
        (Inl err, w1) \<Rightarrow> (error_handler err, w1)
      | (Inr None, w1) \<Rightarrow> (\<lparr>status = 404, body = ErrorJson (js ''not found'')\<rparr>, w1)
      | (Inr (Some it), w1) \<Rightarrow>
          if it ''status'' \<noteq> Some (S (js ''READY''))
          then (\<lparr>status = 400,
                 body = ErrorJson (js ''not ready: '' @ ToString (it ''status''))\<rparr>, w1)
          else
     (case s3_presign_get e (it ''s3Bucket'') (it ''s3Key'')
             (content_disposition (it ''originalFilename'')) (PRESIGN_EXPIRES_SECONDS cfg) w1 of
        (Inl err, w2) \<Rightarrow> (error_handler err, w2)
      | (Inr downloadUrl, w2) \<Rightarrow>
     (case ddb_update e fileId increment_downloadCount w2 of
        (Inl err, w3) \<Rightarrow> (error_handler err, w3)
      | (Inr _, w3) \<Rightarrow>
          (\<lparr>status = 200,
            body = ShareJson fileId downloadUrl
                     (Date_now e div 1000 + PRESIGN_EXPIRES_SECONDS cfg)\<rparr>, w3)))))"

section \<open>Sequences of requests\<close>






section \<open>Notions the properties are stated with\<close>

text \<open>
  A value that is missing, not a string, or blank after trimming, in the words of the
  specification.
\<close>

definition missing_or_blank :: "jsval \<Rightarrow> bool" where
  "missing_or_blank v \<longleftrightarrow>
     v = JUndefined \<or> (case v of JString s \<Rightarrow> trim s = [] | _ \<Rightarrow> True)"

text \<open>The response to a request that fails validation on the field \<open>name\<close>.\<close>

definition required_response :: "string \<Rightarrow> response" where
  "required_response name =
     \<lparr>status = 400, body = ErrorJson (js name @ js '' is required'')\<rparr>"




subsection \<open>A concrete service, for the instances\<close>

definition json_object :: "(string \<times> jsval) list \<Rightarrow> js_object" where
  "json_object kvs k = (case map_of kvs k of None \<Rightarrow> JUndefined | Some v \<Rightarrow> v)"

definition demo_cfg :: config where
  "demo_cfg = \<lparr>S3_BUCKET = js ''bucket'', DDB_TABLE = js ''files'', PRESIGN_EXPIRES_SECONDS = 900\<rparr>"

definition demo_head :: head_output where
  "demo_head = \<lparr>ContentLength = Some 42, ContentType = None\<rparr>"

definition demo_env :: env where
  "demo_env =
     \<lparr>uuidv4 = js ''id-1'',
      new_Date_toISOString = js ''2024-01-01T00:00:00.123Z'',
      Date_now = 1704067200123,
      getSignedUrl_put = (\<lambda>bucket key ctype expiresIn. Inr (js ''https://put/'' @ key)),
      getSignedUrl_get = (\<lambda>bucket key disposition expiresIn. Inr (js ''https://get/'' @ disposition)),
      headObject = (\<lambda>bucket key. Inr demo_head),
      ddb_fault = (\<lambda>c. None)\<rparr>"

definition s3_down :: js_error where
  "s3_down = \<lparr>statusCode = None, message = js ''CredentialsProviderError''\<rparr>"

definition failing_env :: env where
  "failing_env =
     demo_env\<lparr>getSignedUrl_put := (\<lambda>bucket key ctype expiresIn. Inl s3_down),
              getSignedUrl_get := (\<lambda>bucket key disposition expiresIn. Inl s3_down),
              headObject := (\<lambda>bucket key. Inl s3_down)\<rparr>"

definition empty_world :: world where
  "empty_world = \<lparr>table = Map.empty, calls = []\<rparr>"

definition spec_upload :: js_object where
  "spec_upload =
     json_object [(''originalFilename'', JString (js ''my file (1).pdf'')),
                  (''contentType'', JString (js ''application/pdf''))]"

definition padded_upload :: js_object where
  "padded_upload =
     json_object [(''originalFilename'', JString (js '' my file (1).pdf'')),
                  (''contentType'', JString (js ''application/pdf''))]"

definition demo_id :: js_object where
  "demo_id = json_object [(''fileId'', JString (js ''id-1''))]"

definition demo_key :: jsstring where
  "demo_key = js ''uploads/id-1/my_file_1_.pdf''"

definition uploading_item :: item where
  "uploading_item =
     new_item (js ''id-1'') (js ''bucket'') demo_key (js ''my file (1).pdf'')
       (js ''application/pdf'') (js ''2024-01-01T00:00:00.123Z'') 1704068100"

definition ready_item :: item where
  "ready_item =
     uploading_item(''status'' \<mapsto> S (js ''READY''), ''sizeBytes'' \<mapsto> N 42,
                    ''contentType'' \<mapsto> S (js ''application/pdf''))"

definition uploading_world :: world where
  "uploading_world = \<lparr>table = [js ''id-1'' \<mapsto> uploading_item], calls = []\<rparr>"

definition ready_world :: world where
  "ready_world = \<lparr>table = [js ''id-1'' \<mapsto> ready_item], calls = []\<rparr>"


definition blank_name_upload :: js_object where
  "blank_name_upload =
     json_object [(''originalFilename'', JString (js ''   '')),
                  (''contentType'', JString (js ''application/pdf''))]"

definition no_type_upload :: js_object where
  "no_type_upload = json_object [(''originalFilename'', JString (js ''a.txt''))]"

definition numeric_id :: js_object where
  "numeric_id = json_object [(''fileId'', JNumber 7)]"

section \<open>Strings and validation\<close>

lemma trim_Nil [simp]: "trim [] = []"
  by (simp add: trim_def)

lemma js_append: "js (a @ b) = js a @ js b"
  by (simp add: js_def)

lemma ready_neq_uploading: "js ''READY'' \<noteq> js ''UPLOADING''"
  by (simp add: js_def)

lemma requireString_cases:
  "requireString v name =
     (case v of JString s \<Rightarrow> if trim s = [] then Inl (required_error name) else Inr (trim s)
              | _ \<Rightarrow> Inl (required_error name))"
  by (cases v) (auto simp: requireString_def)

lemma requireString_Inr:
  "requireString v name = Inr x \<longleftrightarrow> (\<exists>s. v = JString s \<and> trim s \<noteq> [] \<and> x = trim s)"
  unfolding requireString_cases by (cases v) auto

lemma requireString_ok: "trim s \<noteq> [] \<Longrightarrow> requireString (JString s) name = Inr (trim s)"
  by (simp add: requireString_cases)

lemma requireString_blank:
  "missing_or_blank v \<Longrightarrow> requireString v name = Inl (required_error name)"
  unfolding requireString_cases missing_or_blank_def by (cases v) auto

lemma not_blank_string: "\<not> missing_or_blank v \<Longrightarrow> \<exists>s. v = JString s \<and> trim s \<noteq> []"
  unfolding missing_or_blank_def by (cases v) auto

lemma error_handler_required: "error_handler (required_error name) = required_response name"
  by (simp add: error_handler_def required_error_def required_response_def js_def)

lemma safeName_keep:
  "\<forall>c\<in>set keep. is_word_dot_hyphen c \<Longrightarrow> safeName (keep @ rest) = keep @ safeName rest"
  by (induction keep) auto

lemma safeName_run:
  assumes "bad \<noteq> []" "\<forall>c\<in>set bad. \<not> is_word_dot_hyphen c"
    and "rest = [] \<or> is_word_dot_hyphen (hd rest)"
  shows "safeName (bad @ rest) = 95 # safeName rest"
proof -
  obtain c cs where bad: "bad = c # cs"
    using assms(1) by (cases bad) auto
  have "dropWhile (\<lambda>d. \<not> is_word_dot_hyphen d) (cs @ rest) = rest"
    using assms(2,3) bad by (cases rest) (auto simp: dropWhile_append)
  then show ?thesis
    using assms(2) bad by simp
qed

lemma safeName_example: "safeName (js ''my file (1).pdf'') = js ''my_file_1_.pdf''"
  by (simp add: js_def is_word_dot_hyphen_def)

lemma trim_example: "trim (js '' my file (1).pdf'') = js ''my file (1).pdf''"
  by (simp add: js_def trim_def is_white_space_def)

lemma trim_unpadded:
  assumes "s \<noteq> []" "\<not> is_white_space (hd s)" "\<not> is_white_space (last s)"
  shows "trim s = s"
proof -
  have "dropWhile is_white_space s = s"
    using assms(1,2) by (cases s) auto
  moreover have "dropWhile is_white_space (rev s) = rev s"
    using assms(1,3) by (cases "rev s") (auto simp: hd_rev [symmetric])
  ultimately show ?thesis
    by (simp add: trim_def)
qed

lemma trim_decomposition:
  "\<exists>pre post. s = pre @ trim s @ post
     \<and> (\<forall>c\<in>set pre. is_white_space c) \<and> (\<forall>c\<in>set post. is_white_space c)"
proof -
  define d where "d = dropWhile is_white_space s"
  define pre where "pre = takeWhile is_white_space s"
  define post where "post = rev (takeWhile is_white_space (rev d))"
  have "rev d = takeWhile is_white_space (rev d) @ dropWhile is_white_space (rev d)"
    by simp
  then have "d = rev (dropWhile is_white_space (rev d)) @ post"
    unfolding post_def by (metis rev_append rev_rev_ident)
  then have d: "d = trim s @ post"
    by (simp add: trim_def d_def)
  have "s = pre @ d"
    by (simp add: pre_def d_def)
  with d have "s = pre @ trim s @ post"
    by simp
  moreover have "\<forall>c\<in>set pre. is_white_space c"
    unfolding pre_def by (auto dest: set_takeWhileD)
  moreover have "\<forall>c\<in>set post. is_white_space c"
    unfolding post_def by (auto dest: set_takeWhileD)
  ultimately show ?thesis by blast
qed

section \<open>The log of calls and the stores\<close>

lemma table_logged [simp]: "table (logged c w) = table w"
  by (simp add: logged_def)

lemma calls_logged [simp]: "calls (logged c w) = calls w @ [c]"
  by (simp add: logged_def)

lemmas store_defs = ddb_put_def ddb_get_def ddb_update_def s3_presign_put_def
  s3_presign_get_def s3_head_def

section \<open>Presign-upload\<close>

lemma presign_upload_invalid_name:
  "missing_or_blank (b ''originalFilename'') \<Longrightarrow>
   presign_upload cfg e b w = (required_response ''originalFilename'', w)"
  by (simp add: presign_upload_def requireString_blank error_handler_required)

lemma presign_upload_invalid_type:
  "\<not> missing_or_blank (b ''originalFilename'') \<Longrightarrow> missing_or_blank (b ''contentType'') \<Longrightarrow>
   presign_upload cfg e b w = (required_response ''contentType'', w)"
  by (auto simp: presign_upload_def requireString_blank requireString_ok error_handler_required
      dest!: not_blank_string)

lemma presign_upload_ok:
  assumes "b ''originalFilename'' = JString name" "trim name \<noteq> []"
    and "b ''contentType'' = JString ctype" "trim ctype \<noteq> []"
    and "key = js ''uploads/'' @ uuidv4 e @ js ''/'' @ safeName (trim name)"
    and "getSignedUrl_put e (S3_BUCKET cfg) key (trim ctype) (PRESIGN_EXPIRES_SECONDS cfg) = Inr url"
    and "ddb_fault e PutCommand = None"
  shows "presign_upload cfg e b w =
     (\<lparr>status = 200,
       body = PresignJson (uuidv4 e) url key (Date_now e div 1000 + PRESIGN_EXPIRES_SECONDS cfg)\<rparr>,
      \<lparr>table = (table w)(uuidv4 e \<mapsto>
           new_item (uuidv4 e) (S3_BUCKET cfg) key (trim name) (trim ctype)
             (new_Date_toISOString e) (Date_now e div 1000 + PRESIGN_EXPIRES_SECONDS cfg)),
        calls = calls w @ [GetSignedUrlPut, PutCommand]\<rparr>)"
  using assms by (simp add: presign_upload_def requireString_ok store_defs Let_def logged_def)

lemma presign_upload_sign_fails:
  assumes "b ''originalFilename'' = JString name" "trim name \<noteq> []"
    and "b ''contentType'' = JString ctype" "trim ctype \<noteq> []"
    and "getSignedUrl_put e (S3_BUCKET cfg)
           (js ''uploads/'' @ uuidv4 e @ js ''/'' @ safeName (trim name))
           (trim ctype) (PRESIGN_EXPIRES_SECONDS cfg) = Inl err"
  shows "presign_upload cfg e b w = (error_handler err, logged GetSignedUrlPut w)"
  using assms by (simp add: presign_upload_def requireString_ok store_defs Let_def)

lemma presign_upload_success:
  assumes "presign_upload cfg e b w = (r, w')" "body r = PresignJson fid url key ex"
  shows "\<exists>name ctype. b ''originalFilename'' = JString name \<and> trim name \<noteq> []
      \<and> b ''contentType'' = JString ctype \<and> trim ctype \<noteq> []
      \<and> fid = uuidv4 e
      \<and> key = js ''uploads/'' @ fid @ js ''/'' @ safeName (trim name)
      \<and> getSignedUrl_put e (S3_BUCKET cfg) key (trim ctype) (PRESIGN_EXPIRES_SECONDS cfg) = Inr url
      \<and> ddb_fault e PutCommand = None"
  using assms
  by (auto simp: presign_upload_def requireString_Inr store_defs Let_def error_handler_def
      split: sum.splits option.splits prod.splits)

lemma demo_presign:
  "presign_upload demo_cfg demo_env spec_upload empty_world =
     (\<lparr>status = 200,
       body = PresignJson (js ''id-1'') (js ''https://put/uploads/id-1/my_file_1_.pdf'')
                (js ''uploads/id-1/my_file_1_.pdf'') 1704068100\<rparr>,
      \<lparr>table = [js ''id-1'' \<mapsto> uploading_item], calls = [GetSignedUrlPut, PutCommand]\<rparr>)"
proof -
  have name: "spec_upload ''originalFilename'' = JString (js ''my file (1).pdf'')"
    and ctype: "spec_upload ''contentType'' = JString (js ''application/pdf'')"
    by (simp_all add: spec_upload_def json_object_def)
  have t1: "trim (js ''my file (1).pdf'') = js ''my file (1).pdf''"
    by (simp add: js_def trim_def is_white_space_def)
  have t2: "trim (js ''application/pdf'') = js ''application/pdf''"
    by (simp add: js_def trim_def is_white_space_def)
  have n1: "js ''my file (1).pdf'' \<noteq> []" and n2: "js ''application/pdf'' \<noteq> []"
    by (simp_all add: js_def)
  show ?thesis
    using presign_upload_ok [of spec_upload "js ''my file (1).pdf''" "js ''application/pdf''"
        "js ''uploads/id-1/my_file_1_.pdf''" demo_env demo_cfg
        "js ''https://put/uploads/id-1/my_file_1_.pdf''" empty_world]
    by (simp add: name ctype t1 t2 n1 n2 safeName_example demo_env_def demo_cfg_def
        empty_world_def uploading_item_def demo_key_def js_append [symmetric])
qed

section \<open>Complete-upload\<close>

lemma nullish_size:
  "nullish (map_option N n) (Some NULL) = Some (case n of None \<Rightarrow> NULL | Some k \<Rightarrow> N k)"
  by (simp add: nullish_def split: option.splits)

lemma nullish_ctype:
  "nullish (map_option S c) d = (case c of None \<Rightarrow> d | Some t \<Rightarrow> Some (S t))"
  by (simp add: nullish_def split: option.splits)

lemma complete_upload_invalid:
  "missing_or_blank (b ''fileId'') \<Longrightarrow>
   complete_upload cfg e b w = (required_response ''fileId'', w)"
  by (simp add: complete_upload_def requireString_blank error_handler_required)

lemma complete_upload_missing:
  assumes "b ''fileId'' = JString f" "trim f \<noteq> []"
    and "ddb_fault e GetCommand = None" "table w (trim f) = None"
  shows "complete_upload cfg e b w =
     (\<lparr>status = 404, body = ErrorJson (js ''fileId not found'')\<rparr>, logged GetCommand w)"
  using assms by (simp add: complete_upload_def requireString_ok store_defs)

lemma complete_upload_wrong_status:
  assumes "b ''fileId'' = JString f" "trim f \<noteq> []"
    and "ddb_fault e GetCommand = None" "table w (trim f) = Some it"
    and "it ''status'' \<noteq> Some (S (js ''UPLOADING''))"
  shows "complete_upload cfg e b w =
     (\<lparr>status = 400, body = ErrorJson (js ''invalid status: '' @ ToString (it ''status''))\<rparr>,
      logged GetCommand w)"
  using assms by (simp add: complete_upload_def requireString_ok store_defs)

lemma complete_upload_head_fails:
  assumes "b ''fileId'' = JString f" "trim f \<noteq> []"
    and "ddb_fault e GetCommand = None" "table w (trim f) = Some it"
    and "it ''status'' = Some (S (js ''UPLOADING''))"
    and "headObject e (it ''s3Bucket'') (it ''s3Key'') = Inl err"
  shows "complete_upload cfg e b w =
     (error_handler err, logged HeadObjectCommand (logged GetCommand w))"
  using assms by (simp add: complete_upload_def requireString_ok store_defs)

lemma complete_upload_ok:
  assumes "b ''fileId'' = JString f" "trim f \<noteq> []"
    and "ddb_fault e GetCommand = None" "table w (trim f) = Some it"
    and "it ''status'' = Some (S (js ''UPLOADING''))"
    and "headObject e (it ''s3Bucket'') (it ''s3Key'') = Inr h"
    and "nullish (map_option N (ContentLength h)) (Some NULL) = Some sz"
    and "nullish (map_option S (ContentType h)) (it ''contentType'') = Some ct"
    and "ddb_fault e UpdateCommand = None"
  shows "complete_upload cfg e b w =
     (\<lparr>status = 200, body = CompleteJson True (trim f) (Some sz) (Some ct)\<rparr>,
      \<lparr>table = (table w)(trim f \<mapsto>
           it(''status'' \<mapsto> S (js ''READY''), ''sizeBytes'' \<mapsto> sz, ''contentType'' \<mapsto> ct)),
        calls = calls w @ [GetCommand, HeadObjectCommand, UpdateCommand]\<rparr>)"
  using assms
  by (simp add: complete_upload_def requireString_ok store_defs Let_def set_ready_def logged_def)

lemma complete_upload_success:
  assumes "complete_upload cfg e b w = (r, w')" "body r = CompleteJson ok fid sz ct"
  shows "\<exists>f it h. b ''fileId'' = JString f \<and> trim f \<noteq> [] \<and> fid = trim f
      \<and> ddb_fault e GetCommand = None \<and> table w fid = Some it
      \<and> it ''status'' = Some (S (js ''UPLOADING''))
      \<and> headObject e (it ''s3Bucket'') (it ''s3Key'') = Inr h
      \<and> sz = nullish (map_option N (ContentLength h)) (Some NULL)
      \<and> ct = nullish (map_option S (ContentType h)) (it ''contentType'')
      \<and> sz \<noteq> None \<and> ct \<noteq> None \<and> ok
      \<and> ddb_fault e UpdateCommand = None"
  using assms
  by (auto simp: complete_upload_def requireString_Inr store_defs Let_def error_handler_def
      set_ready_def split: sum.splits option.splits prod.splits if_splits) metis+

lemma complete_upload_effect:
  assumes "complete_upload cfg e b w = (r, w')" and "body r = CompleteJson ok fid sz ct"
  shows "\<exists>it h s c. table w fid = Some it \<and> it ''status'' = Some (S (js ''UPLOADING''))
     \<and> headObject e (it ''s3Bucket'') (it ''s3Key'') = Inr h
     \<and> s = (case ContentLength h of None \<Rightarrow> NULL | Some n \<Rightarrow> N n)
     \<and> Some c = (case ContentType h of None \<Rightarrow> it ''contentType'' | Some t \<Rightarrow> Some (S t))
     \<and> r = \<lparr>status = 200, body = CompleteJson True fid (Some s) (Some c)\<rparr>
     \<and> w' = \<lparr>table = (table w)(fid \<mapsto>
                 it(''status'' \<mapsto> S (js ''READY''), ''sizeBytes'' \<mapsto> s, ''contentType'' \<mapsto> c)),
              calls = calls w @ [GetCommand, HeadObjectCommand, UpdateCommand]\<rparr>"
proof -
  from complete_upload_success [OF assms]
  obtain f it h where f: "b ''fileId'' = JString f" "trim f \<noteq> []" "fid = trim f"
    and get: "ddb_fault e GetCommand = None" "table w fid = Some it"
    and st: "it ''status'' = Some (S (js ''UPLOADING''))"
    and hd: "headObject e (it ''s3Bucket'') (it ''s3Key'') = Inr h"
    and sz: "sz = nullish (map_option N (ContentLength h)) (Some NULL)"
    and ct: "ct = nullish (map_option S (ContentType h)) (it ''contentType'')"
    and some: "sz \<noteq> None" "ct \<noteq> None"
    and upd: "ddb_fault e UpdateCommand = None"
    by blast
  define s where "s = (case ContentLength h of None \<Rightarrow> NULL | Some n \<Rightarrow> N n)"
  from some(2) obtain c where c: "ct = Some c" by blast
  have sz': "nullish (map_option N (ContentLength h)) (Some NULL) = Some s"
    by (simp add: nullish_size s_def)
  have ct': "nullish (map_option S (ContentType h)) (it ''contentType'') = Some c"
    using ct c by simp
  have "complete_upload cfg e b w =
     (\<lparr>status = 200, body = CompleteJson True fid (Some s) (Some c)\<rparr>,
      \<lparr>table = (table w)(fid \<mapsto>
           it(''status'' \<mapsto> S (js ''READY''), ''sizeBytes'' \<mapsto> s, ''contentType'' \<mapsto> c)),
        calls = calls w @ [GetCommand, HeadObjectCommand, UpdateCommand]\<rparr>)"
    using complete_upload_ok [of b f e w it h s c cfg] f get st hd sz' ct' upd by simp
  with assms(1) have r: "r = \<lparr>status = 200, body = CompleteJson True fid (Some s) (Some c)\<rparr>"
    and w': "w' = \<lparr>table = (table w)(fid \<mapsto>
           it(''status'' \<mapsto> S (js ''READY''), ''sizeBytes'' \<mapsto> s, ''contentType'' \<mapsto> c)),
        calls = calls w @ [GetCommand, HeadObjectCommand, UpdateCommand]\<rparr>"
    by auto
  have "Some c = (case ContentType h of None \<Rightarrow> it ''contentType'' | Some t \<Rightarrow> Some (S t))"
    using ct' by (simp add: nullish_ctype)
  with get(2) st hd r w' s_def show ?thesis by blast
qed

section \<open>Get-metadata\<close>

lemma get_metadata_invalid:
  "missing_or_blank (p ''fileId'') \<Longrightarrow>
   get_metadata cfg e p w = (required_response ''fileId'', w)"
  by (simp add: get_metadata_def requireString_blank error_handler_required)


section \<open>Create-share-link\<close>

lemma share_invalid:
  "missing_or_blank (p ''fileId'') \<Longrightarrow> share cfg e p w = (required_response ''fileId'', w)"
  by (simp add: share_def requireString_blank error_handler_required)

lemma share_missing:
  assumes "p ''fileId'' = JString f" "trim f \<noteq> []"
    and "ddb_fault e GetCommand = None" "table w (trim f) = None"
  shows "share cfg e p w =
     (\<lparr>status = 404, body = ErrorJson (js ''not found'')\<rparr>, logged GetCommand w)"
  using assms by (simp add: share_def requireString_ok store_defs)

lemma share_not_ready:
  assumes "p ''fileId'' = JString f" "trim f \<noteq> []"
    and "ddb_fault e GetCommand = None" "table w (trim f) = Some it"
    and "it ''status'' \<noteq> Some (S (js ''READY''))"
  shows "share cfg e p w =
     (\<lparr>status = 400, body = ErrorJson (js ''not ready: '' @ ToString (it ''status''))\<rparr>,
      logged GetCommand w)"
  using assms by (simp add: share_def requireString_ok store_defs)

lemma share_sign_fails:
  assumes "p ''fileId'' = JString f" "trim f \<noteq> []"
    and "ddb_fault e GetCommand = None" "table w (trim f) = Some it"
    and "it ''status'' = Some (S (js ''READY''))"
    and "getSignedUrl_get e (it ''s3Bucket'') (it ''s3Key'')
           (content_disposition (it ''originalFilename'')) (PRESIGN_EXPIRES_SECONDS cfg) = Inl err"
  shows "share cfg e p w = (error_handler err, logged GetSignedUrlGet (logged GetCommand w))"
  using assms by (simp add: share_def requireString_ok store_defs)

lemma share_success:
  assumes "share cfg e p w = (r, w')" "body r = ShareJson fid url ex"
  shows "\<exists>f it n. p ''fileId'' = JString f \<and> trim f \<noteq> [] \<and> fid = trim f
      \<and> ddb_fault e GetCommand = None \<and> table w fid = Some it
      \<and> it ''status'' = Some (S (js ''READY''))
      \<and> getSignedUrl_get e (it ''s3Bucket'') (it ''s3Key'')
           (content_disposition (it ''originalFilename'')) (PRESIGN_EXPIRES_SECONDS cfg) = Inr url
      \<and> ddb_fault e UpdateCommand = None
      \<and> (it ''downloadCount'' = None \<and> n = 0 \<or> it ''downloadCount'' = Some (N n))
      \<and> ex = Date_now e div 1000 + PRESIGN_EXPIRES_SECONDS cfg
      \<and> r = \<lparr>status = 200, body = ShareJson fid url ex\<rparr>
      \<and> w' = \<lparr>table = (table w)(fid \<mapsto> it(''downloadCount'' \<mapsto> N (n + 1))),
               calls = calls w @ [GetCommand, GetSignedUrlGet, UpdateCommand]\<rparr>"
  using assms
  by (auto simp: share_def requireString_Inr store_defs Let_def error_handler_def
      increment_downloadCount_def logged_def
      split: sum.splits option.splits prod.splits if_splits attr.splits)

lemma share_ok:
  assumes "p ''fileId'' = JString f" "trim f \<noteq> []"
    and "ddb_fault e GetCommand = None" "table w (trim f) = Some it"
    and "it ''status'' = Some (S (js ''READY''))"
    and "getSignedUrl_get e (it ''s3Bucket'') (it ''s3Key'')
           (content_disposition (it ''originalFilename'')) (PRESIGN_EXPIRES_SECONDS cfg) = Inr url"
    and "ddb_fault e UpdateCommand = None"
    and "it ''downloadCount'' = None \<and> n = 0 \<or> it ''downloadCount'' = Some (N n)"
  shows "share cfg e p w =
     (\<lparr>status = 200,
       body = ShareJson (trim f) url (Date_now e div 1000 + PRESIGN_EXPIRES_SECONDS cfg)\<rparr>,
      \<lparr>table = (table w)(trim f \<mapsto> it(''downloadCount'' \<mapsto> N (n + 1))),
        calls = calls w @ [GetCommand, GetSignedUrlGet, UpdateCommand]\<rparr>)"
  using assms
  by (auto simp: share_def requireString_ok store_defs increment_downloadCount_def logged_def)

section \<open>What one request and a sequence of requests do to the status\<close>












section \<open>The concrete service, evaluated\<close>

lemma demo_id_field: "demo_id ''fileId'' = JString (js ''id-1'')"
  by (simp add: demo_id_def json_object_def)

lemma trim_demo_id: "trim (js ''id-1'') = js ''id-1''" "js ''id-1'' \<noteq> []"
  by (simp_all add: js_def trim_def is_white_space_def)

lemma uploading_item_fields:
  "uploading_item ''status'' = Some (S (js ''UPLOADING''))"
  "uploading_item ''s3Bucket'' = Some (S (js ''bucket''))"
  "uploading_item ''s3Key'' = Some (S demo_key)"
  "uploading_item ''contentType'' = Some (S (js ''application/pdf''))"
  "uploading_item ''originalFilename'' = Some (S (js ''my file (1).pdf''))"
  "uploading_item ''downloadCount'' = Some (N 0)"
  by (simp_all add: uploading_item_def new_item_def)

lemma ready_item_fields:
  "ready_item ''status'' = Some (S (js ''READY''))"
  "ready_item ''originalFilename'' = Some (S (js ''my file (1).pdf''))"
  "ready_item ''downloadCount'' = Some (N 0)"
  by (simp_all add: ready_item_def uploading_item_fields)

lemma demo_complete:
  "complete_upload demo_cfg demo_env demo_id uploading_world =
     (\<lparr>status = 200,
       body = CompleteJson True (js ''id-1'') (Some (N 42)) (Some (S (js ''application/pdf'')))\<rparr>,
      \<lparr>table = [js ''id-1'' \<mapsto> ready_item],
        calls = [GetCommand, HeadObjectCommand, UpdateCommand]\<rparr>)"
  using complete_upload_ok [of demo_id "js ''id-1''" demo_env uploading_world uploading_item
      demo_head "N 42" "S (js ''application/pdf'')" demo_cfg]
  by (simp add: demo_id_field trim_demo_id uploading_item_fields nullish_def
      demo_env_def demo_head_def uploading_world_def ready_item_def)

lemma demo_share:
  "share demo_cfg demo_env demo_id ready_world =
     (\<lparr>status = 200,
       body = ShareJson (js ''id-1'')
                (js ''https://get/'' @ content_disposition (Some (S (js ''my file (1).pdf''))))
                1704068100\<rparr>,
      \<lparr>table = [js ''id-1'' \<mapsto> ready_item(''downloadCount'' \<mapsto> N 1)],
        calls = [GetCommand, GetSignedUrlGet, UpdateCommand]\<rparr>)"
  using share_ok [of demo_id "js ''id-1''" demo_env ready_world ready_item demo_cfg
      "js ''https://get/'' @ content_disposition (Some (S (js ''my file (1).pdf'')))" 0]
  by (simp add: demo_id_field trim_demo_id ready_item_fields demo_env_def demo_cfg_def
      ready_world_def)

lemma invalid_status_ready:
  "js ''invalid status: '' @ ToString (Some (S (js ''READY''))) = js ''invalid status: READY''"
  by (simp add: ToString_def js_def)

lemma not_ready_uploading:
  "js ''not ready: '' @ ToString (Some (S (js ''UPLOADING''))) = js ''not ready: UPLOADING''"
  by (simp add: ToString_def js_def)

lemma demo_env_no_fault: "ddb_fault demo_env c = None"
  by (simp add: demo_env_def)

lemma demo_env_uuid: "uuidv4 demo_env = js ''id-1''"
  by (simp add: demo_env_def)


lemma blank_examples:
  "missing_or_blank JUndefined" "missing_or_blank (JNumber 7)" "missing_or_blank (JString (js ''   ''))"
  "\<not> missing_or_blank (JString (js ''a.txt''))"
  by (simp_all add: missing_or_blank_def js_def trim_def is_white_space_def)

lemma failing_env_fields:
  "getSignedUrl_put failing_env bucket key ctype x = Inl s3_down"
  "getSignedUrl_get failing_env bkt k d x = Inl s3_down"
  "headObject failing_env bkt k = Inl s3_down"
  "ddb_fault failing_env c = None"
  by (simp_all add: failing_env_def demo_env_def)

lemma error_handler_s3_down:
  "error_handler s3_down = \<lparr>status = 500, body = ErrorJson (js ''CredentialsProviderError'')\<rparr>"
  by (simp add: error_handler_def s3_down_def js_def)

lemma padded_presign:
  "presign_upload demo_cfg demo_env padded_upload empty_world =
     (\<lparr>status = 200,
       body = PresignJson (js ''id-1'') (js ''https://put/uploads/id-1/my_file_1_.pdf'')
                (js ''uploads/id-1/my_file_1_.pdf'') 1704068100\<rparr>,
      \<lparr>table = [js ''id-1'' \<mapsto> uploading_item], calls = [GetSignedUrlPut, PutCommand]\<rparr>)"
proof -
  have name: "padded_upload ''originalFilename'' = JString (js '' my file (1).pdf'')"
    and ctype: "padded_upload ''contentType'' = JString (js ''application/pdf'')"
    by (simp_all add: padded_upload_def json_object_def)
  have t2: "trim (js ''application/pdf'') = js ''application/pdf''"
    by (simp add: js_def trim_def is_white_space_def)
  have n1: "js ''my file (1).pdf'' \<noteq> []" and n2: "js ''application/pdf'' \<noteq> []"
    by (simp_all add: js_def)
  show ?thesis
    using presign_upload_ok [of padded_upload "js '' my file (1).pdf''" "js ''application/pdf''"
        "js ''uploads/id-1/my_file_1_.pdf''" demo_env demo_cfg
        "js ''https://put/uploads/id-1/my_file_1_.pdf''" empty_world]
    by (simp add: name ctype trim_example t2 n1 n2 safeName_example demo_env_def demo_cfg_def
        empty_world_def uploading_item_def demo_key_def js_append [symmetric])
qed

lemma ready_presign:
  "presign_upload demo_cfg demo_env spec_upload ready_world =
     (\<lparr>status = 200,
       body = PresignJson (js ''id-1'') (js ''https://put/uploads/id-1/my_file_1_.pdf'')
                (js ''uploads/id-1/my_file_1_.pdf'') 1704068100\<rparr>,
      \<lparr>table = [js ''id-1'' \<mapsto> uploading_item], calls = [GetSignedUrlPut, PutCommand]\<rparr>)"
proof -
  have name: "spec_upload ''originalFilename'' = JString (js ''my file (1).pdf'')"
    and ctype: "spec_upload ''contentType'' = JString (js ''application/pdf'')"
    by (simp_all add: spec_upload_def json_object_def)
  have t1: "trim (js ''my file (1).pdf'') = js ''my file (1).pdf''"
    and t2: "trim (js ''application/pdf'') = js ''application/pdf''"
    by (simp_all add: js_def trim_def is_white_space_def)
  have n1: "js ''my file (1).pdf'' \<noteq> []" and n2: "js ''application/pdf'' \<noteq> []"
    by (simp_all add: js_def)
  show ?thesis
    using presign_upload_ok [of spec_upload "js ''my file (1).pdf''" "js ''application/pdf''"
        "js ''uploads/id-1/my_file_1_.pdf''" demo_env demo_cfg
        "js ''https://put/uploads/id-1/my_file_1_.pdf''" ready_world]
    by (simp add: name ctype t1 t2 n1 n2 safeName_example demo_env_def demo_cfg_def
        ready_world_def uploading_item_def demo_key_def js_append [symmetric])
qed

section \<open>The properties\<close>

subsection \<open>The sanitised key segment\<close>

text \<open>
  Claim C1, as the code has it. The storage key of a successful presign-upload is
  \<open>uploads/\<close>, the fileId, \<open>/\<close> and \<open>safeName\<close> of the trimmed originalFilename.
  \<open>safeName\<close> keeps every code unit of \<open>[A-Za-z0-9_.-]\<close> and replaces every maximal run
  of one or more code units outside the class by a single underscore: consecutive bad
  characters are collapsed, so \<open>my file (1).pdf\<close> yields \<open>my_file_1_.pdf\<close>.
\<close>

theorem C1_key_segment_collapses_runs:
  "(presign_upload cfg e b w = (r, w') \<and> body r = PresignJson fid url key ex \<longrightarrow>
      (\<exists>name. b ''originalFilename'' = JString name
         \<and> key = js ''uploads/'' @ fid @ js ''/'' @ safeName (trim name)))
   \<and> ((\<forall>c\<in>set keep. is_word_dot_hyphen c) \<longrightarrow>
        safeName (keep @ rest) = keep @ safeName rest)
   \<and> (bad \<noteq> [] \<and> (\<forall>c\<in>set bad. \<not> is_word_dot_hyphen c)
        \<and> (rest' = [] \<or> is_word_dot_hyphen (hd rest')) \<longrightarrow>
        safeName (bad @ rest') = 95 # safeName rest')
   \<and> safeName (js ''my file (1).pdf'') = js ''my_file_1_.pdf''"
proof (intro conjI impI)
  assume "presign_upload cfg e b w = (r, w') \<and> body r = PresignJson fid url key ex"
  then show "\<exists>name. b ''originalFilename'' = JString name
         \<and> key = js ''uploads/'' @ fid @ js ''/'' @ safeName (trim name)"
    using presign_upload_success [of cfg e b w r w' fid url key ex] by blast
next
  assume "\<forall>c\<in>set keep. is_word_dot_hyphen c"
  then show "safeName (keep @ rest) = keep @ safeName rest"
    by (rule safeName_keep)
next
  assume "bad \<noteq> [] \<and> (\<forall>c\<in>set bad. \<not> is_word_dot_hyphen c)
        \<and> (rest' = [] \<or> is_word_dot_hyphen (hd rest'))"
  then show "safeName (bad @ rest') = 95 # safeName rest'"
    by (simp add: safeName_run)
next
  show "safeName (js ''my file (1).pdf'') = js ''my_file_1_.pdf''"
    by (rule safeName_example)
qed

text \<open>
  An instance: the request of the specification's example, and the runs \<open>my\<close> and
  \<open> (\<close> of its file name.
\<close>

theorem C1_key_segment_witness:
  "(\<exists>name. spec_upload ''originalFilename'' = JString name
       \<and> js ''uploads/id-1/my_file_1_.pdf'' = js ''uploads/'' @ js ''id-1'' @ js ''/'' @ safeName (trim name))
   \<and> safeName (js ''my'' @ js '' file'') = js ''my'' @ safeName (js '' file'')
   \<and> safeName (js '' ('' @ js ''1).pdf'') = 95 # safeName (js ''1).pdf'')"
  using C1_key_segment_collapses_runs [of demo_cfg demo_env spec_upload empty_world
      "fst (presign_upload demo_cfg demo_env spec_upload empty_world)"
      "snd (presign_upload demo_cfg demo_env spec_upload empty_world)"
      "js ''id-1''" "js ''https://put/uploads/id-1/my_file_1_.pdf''"
      "js ''uploads/id-1/my_file_1_.pdf''" 1704068100
      "js ''my''" "js '' file''" "js '' (''" "js ''1).pdf''"]
  by (simp add: demo_presign) (simp add: js_def is_word_dot_hyphen_def)

text \<open>
  One underscore for each replaced character would give \<open>my_file__1_.pdf\<close>; the handler
  answers with \<open>my_file_1_.pdf\<close>. A leading space of the file name is trimmed before the
  replacement, so it leaves no underscore either.
\<close>

theorem C1_per_character_counterexample:
  "body (fst (presign_upload demo_cfg demo_env spec_upload empty_world)) =
     PresignJson (js ''id-1'') (js ''https://put/uploads/id-1/my_file_1_.pdf'')
       (js ''uploads/id-1/my_file_1_.pdf'') 1704068100
   \<and> spec_safeName (js ''my file (1).pdf'') = js ''my_file__1_.pdf''
   \<and> safeName (js ''my file (1).pdf'') \<noteq> js ''my_file__1_.pdf''
   \<and> body (fst (presign_upload demo_cfg demo_env padded_upload empty_world)) =
     PresignJson (js ''id-1'') (js ''https://put/uploads/id-1/my_file_1_.pdf'')
       (js ''uploads/id-1/my_file_1_.pdf'') 1704068100"
  by (simp add: demo_presign padded_presign)
    (simp add: js_def spec_safeName_def is_word_dot_hyphen_def)

subsection \<open>Completing an upload\<close>

text \<open>
  Claim C2. For every record whose status is \<open>UPLOADING\<close>, a complete-upload call for
  its fileId in which the stores answer succeeds and updates exactly three attributes
  of that record: \<open>status\<close> becomes \<open>READY\<close>, \<open>sizeBytes\<close> the size the object store
  reports (\<open>null\<close> when it reports none), and \<open>contentType\<close> the content type the store
  reports, or the declared one when the store reports none. Every other attribute and
  every other record is as before, and the response carries \<open>ok\<close>, the fileId, the new
  \<open>sizeBytes\<close> and the new \<open>contentType\<close>. Conversely, every call that answers with the
  success body was such a call, on the record under the fileId of the request.
\<close>

theorem C2_complete_updates_record:
  "(b ''fileId'' = JString f \<and> trim f \<noteq> [] \<and> ddb_fault e GetCommand = None
      \<and> table w (trim f) = Some it \<and> it ''status'' = Some (S (js ''UPLOADING''))
      \<and> headObject e (it ''s3Bucket'') (it ''s3Key'') = Inr h
      \<and> ddb_fault e UpdateCommand = None
      \<and> newSize = (case ContentLength h of None \<Rightarrow> NULL | Some n \<Rightarrow> N n)
      \<and> (case ContentType h of None \<Rightarrow> it ''contentType'' | Some t \<Rightarrow> Some (S t)) = Some newType
      \<longrightarrow>
      complete_upload cfg e b w =
        (\<lparr>status = 200, body = CompleteJson True (trim f) (Some newSize) (Some newType)\<rparr>,
         \<lparr>table = (table w)(trim f \<mapsto>
              it(''status'' \<mapsto> S (js ''READY''), ''sizeBytes'' \<mapsto> newSize, ''contentType'' \<mapsto> newType)),
           calls = calls w @ [GetCommand, HeadObjectCommand, UpdateCommand]\<rparr>))
   \<and> (complete_upload cfg e b w = (r, w') \<and> body r = CompleteJson ok fid sz ct \<longrightarrow>
      (\<exists>g it' h' s c. b ''fileId'' = JString g \<and> fid = trim g
         \<and> table w fid = Some it' \<and> it' ''status'' = Some (S (js ''UPLOADING''))
         \<and> headObject e (it' ''s3Bucket'') (it' ''s3Key'') = Inr h'
         \<and> s = (case ContentLength h' of None \<Rightarrow> NULL | Some n \<Rightarrow> N n)
         \<and> Some c = (case ContentType h' of None \<Rightarrow> it' ''contentType'' | Some t \<Rightarrow> Some (S t))
         \<and> table w' = (table w)(fid \<mapsto>
               it'(''status'' \<mapsto> S (js ''READY''), ''sizeBytes'' \<mapsto> s, ''contentType'' \<mapsto> c))
         \<and> r = \<lparr>status = 200, body = CompleteJson True fid (Some s) (Some c)\<rparr>))"
proof (intro conjI impI)
  assume a: "b ''fileId'' = JString f \<and> trim f \<noteq> [] \<and> ddb_fault e GetCommand = None
      \<and> table w (trim f) = Some it \<and> it ''status'' = Some (S (js ''UPLOADING''))
      \<and> headObject e (it ''s3Bucket'') (it ''s3Key'') = Inr h
      \<and> ddb_fault e UpdateCommand = None
      \<and> newSize = (case ContentLength h of None \<Rightarrow> NULL | Some n \<Rightarrow> N n)
      \<and> (case ContentType h of None \<Rightarrow> it ''contentType'' | Some t \<Rightarrow> Some (S t)) = Some newType"
  then have sz: "nullish (map_option N (ContentLength h)) (Some NULL) = Some newSize"
    and ct: "nullish (map_option S (ContentType h)) (it ''contentType'') = Some newType"
    by (simp_all add: nullish_size nullish_ctype)
  from a sz ct show "complete_upload cfg e b w =
        (\<lparr>status = 200, body = CompleteJson True (trim f) (Some newSize) (Some newType)\<rparr>,
         \<lparr>table = (table w)(trim f \<mapsto>
              it(''status'' \<mapsto> S (js ''READY''), ''sizeBytes'' \<mapsto> newSize, ''contentType'' \<mapsto> newType)),
           calls = calls w @ [GetCommand, HeadObjectCommand, UpdateCommand]\<rparr>)"
    using complete_upload_ok [of b f e w it h newSize newType cfg] by blast
next
  assume a: "complete_upload cfg e b w = (r, w') \<and> body r = CompleteJson ok fid sz ct"
  then obtain g where g: "b ''fileId'' = JString g" "fid = trim g"
    using complete_upload_success [of cfg e b w r w' ok fid sz ct] by blast
  from a obtain it' h' s c where "table w fid = Some it'"
    "it' ''status'' = Some (S (js ''UPLOADING''))"
    and "headObject e (it' ''s3Bucket'') (it' ''s3Key'') = Inr h'"
    and "s = (case ContentLength h' of None \<Rightarrow> NULL | Some n \<Rightarrow> N n)"
    and "Some c = (case ContentType h' of None \<Rightarrow> it' ''contentType'' | Some t \<Rightarrow> Some (S t))"
    and "r = \<lparr>status = 200, body = CompleteJson True fid (Some s) (Some c)\<rparr>"
    and w': "w' = \<lparr>table = (table w)(fid \<mapsto>
                 it'(''status'' \<mapsto> S (js ''READY''), ''sizeBytes'' \<mapsto> s, ''contentType'' \<mapsto> c)),
              calls = calls w @ [GetCommand, HeadObjectCommand, UpdateCommand]\<rparr>"
    using complete_upload_effect [of cfg e b w r w' ok fid sz ct] by blast
  moreover from w' have "table w' = (table w)(fid \<mapsto>
           it'(''status'' \<mapsto> S (js ''READY''), ''sizeBytes'' \<mapsto> s, ''contentType'' \<mapsto> c))"
    by simp
  ultimately show "\<exists>g it' h' s c. b ''fileId'' = JString g \<and> fid = trim g
         \<and> table w fid = Some it' \<and> it' ''status'' = Some (S (js ''UPLOADING''))
         \<and> headObject e (it' ''s3Bucket'') (it' ''s3Key'') = Inr h'
         \<and> s = (case ContentLength h' of None \<Rightarrow> NULL | Some n \<Rightarrow> N n)
         \<and> Some c = (case ContentType h' of None \<Rightarrow> it' ''contentType'' | Some t \<Rightarrow> Some (S t))
         \<and> table w' = (table w)(fid \<mapsto>
               it'(''status'' \<mapsto> S (js ''READY''), ''sizeBytes'' \<mapsto> s, ''contentType'' \<mapsto> c))
         \<and> r = \<lparr>status = 200, body = CompleteJson True fid (Some s) (Some c)\<rparr>"
    using g by blast
qed

text \<open>
  An instance: completing the upload of the concrete service, whose object store reports
  42 bytes and no content type.
\<close>

theorem C2_complete_updates_record_witness:
  "complete_upload demo_cfg demo_env demo_id uploading_world =
     (\<lparr>status = 200,
       body = CompleteJson True (js ''id-1'') (Some (N 42)) (Some (S (js ''application/pdf'')))\<rparr>,
      \<lparr>table = [js ''id-1'' \<mapsto>
          uploading_item(''status'' \<mapsto> S (js ''READY''), ''sizeBytes'' \<mapsto> N 42,
                         ''contentType'' \<mapsto> S (js ''application/pdf''))],
        calls = [GetCommand, HeadObjectCommand, UpdateCommand]\<rparr>)
   \<and> uploading_item ''status'' = Some (S (js ''UPLOADING''))"
  using C2_complete_updates_record [where b = demo_id and f = "js ''id-1''" and e = demo_env
      and w = uploading_world and it = uploading_item and h = demo_head and cfg = demo_cfg
      and newSize = "N 42" and newType = "S (js ''application/pdf'')"]
  by (simp add: demo_id_field trim_demo_id uploading_item_fields
      demo_env_def demo_head_def uploading_world_def)

subsection \<open>The status gate of complete-upload\<close>

text \<open>
  Claim C3. With a valid fileId and an answering metadata store, complete-upload
  answers 404 when the table has no record under the fileId, and 400 with the message
  \<open>invalid status: \<close> followed by the current status when the record's status is not
  \<open>UPLOADING\<close>; in both cases the only call made is the read of the record. After a
  call that succeeded the record is \<open>READY\<close>, and a second call with the same body
  answers 400 \<open>invalid status: READY\<close> and, having only read the record, applies no
  update.
\<close>

theorem C3_complete_status_gate:
  "(b ''fileId'' = JString f \<and> trim f \<noteq> [] \<and> ddb_fault e GetCommand = None
      \<and> table w (trim f) = None \<longrightarrow>
      complete_upload cfg e b w =
        (\<lparr>status = 404, body = ErrorJson (js ''fileId not found'')\<rparr>, logged GetCommand w))
   \<and> (b ''fileId'' = JString f \<and> trim f \<noteq> [] \<and> ddb_fault e GetCommand = None
      \<and> table w (trim f) = Some it \<and> it ''status'' \<noteq> Some (S (js ''UPLOADING'')) \<longrightarrow>
      complete_upload cfg e b w =
        (\<lparr>status = 400,
          body = ErrorJson (js ''invalid status: '' @ ToString (it ''status''))\<rparr>,
         logged GetCommand w))
   \<and> (complete_upload cfg e b w = (r, w') \<and> body r = CompleteJson ok fid sz ct
      \<and> ddb_fault e2 GetCommand = None \<longrightarrow>
      (\<exists>it'. table w' fid = Some it' \<and> it' ''status'' = Some (S (js ''READY'')))
      \<and> complete_upload cfg e2 b w' =
        (\<lparr>status = 400, body = ErrorJson (js ''invalid status: READY'')\<rparr>,
         logged GetCommand w'))"
proof (intro conjI impI)
  assume "b ''fileId'' = JString f \<and> trim f \<noteq> [] \<and> ddb_fault e GetCommand = None
      \<and> table w (trim f) = None"
  then show "complete_upload cfg e b w =
        (\<lparr>status = 404, body = ErrorJson (js ''fileId not found'')\<rparr>, logged GetCommand w)"
    by (simp add: complete_upload_missing)
next
  assume "b ''fileId'' = JString f \<and> trim f \<noteq> [] \<and> ddb_fault e GetCommand = None
      \<and> table w (trim f) = Some it \<and> it ''status'' \<noteq> Some (S (js ''UPLOADING''))"
  then show "complete_upload cfg e b w =
        (\<lparr>status = 400,
          body = ErrorJson (js ''invalid status: '' @ ToString (it ''status''))\<rparr>,
         logged GetCommand w)"
    by (simp add: complete_upload_wrong_status)
next
  assume a: "complete_upload cfg e b w = (r, w') \<and> body r = CompleteJson ok fid sz ct
      \<and> ddb_fault e2 GetCommand = None"
  then obtain g where g: "b ''fileId'' = JString g" "trim g \<noteq> []" "fid = trim g"
    using complete_upload_success [of cfg e b w r w' ok fid sz ct] by blast
  from a obtain it s c where "w' = \<lparr>table = (table w)(fid \<mapsto>
           it(''status'' \<mapsto> S (js ''READY''), ''sizeBytes'' \<mapsto> s, ''contentType'' \<mapsto> c)),
           calls = calls w @ [GetCommand, HeadObjectCommand, UpdateCommand]\<rparr>"
    using complete_upload_effect [of cfg e b w r w' ok fid sz ct] by blast
  then obtain it' where it': "table w' fid = Some it'" "it' ''status'' = Some (S (js ''READY''))"
    by simp
  then show "\<exists>it'. table w' fid = Some it' \<and> it' ''status'' = Some (S (js ''READY''))"
    by blast
  have "it' ''status'' \<noteq> Some (S (js ''UPLOADING''))"
    using it'(2) ready_neq_uploading by simp
  then show "complete_upload cfg e2 b w' =
        (\<lparr>status = 400, body = ErrorJson (js ''invalid status: READY'')\<rparr>,
         logged GetCommand w')"
    using complete_upload_wrong_status [of b g e2 w' it' cfg] g a it'
    by (simp add: invalid_status_ready)
qed

text \<open>
  An instance: no record, a \<open>READY\<close> record, and completing twice in the concrete
  service.
\<close>

theorem C3_complete_status_gate_witness:
  "complete_upload demo_cfg demo_env demo_id empty_world =
     (\<lparr>status = 404, body = ErrorJson (js ''fileId not found'')\<rparr>,
      logged GetCommand empty_world)
   \<and> complete_upload demo_cfg demo_env demo_id ready_world =
     (\<lparr>status = 400, body = ErrorJson (js ''invalid status: READY'')\<rparr>,
      logged GetCommand ready_world)
   \<and> complete_upload demo_cfg demo_env demo_id
       (snd (complete_upload demo_cfg demo_env demo_id uploading_world)) =
     (\<lparr>status = 400, body = ErrorJson (js ''invalid status: READY'')\<rparr>,
      logged GetCommand (snd (complete_upload demo_cfg demo_env demo_id uploading_world)))"
  using C3_complete_status_gate [of demo_id "js ''id-1''" demo_env empty_world demo_cfg]
    C3_complete_status_gate [of demo_id "js ''id-1''" demo_env ready_world demo_cfg ready_item]
    C3_complete_status_gate [of demo_id "js ''id-1''" demo_env uploading_world demo_cfg _
      "fst (complete_upload demo_cfg demo_env demo_id uploading_world)"
      "snd (complete_upload demo_cfg demo_env demo_id uploading_world)"
      True "js ''id-1''" "Some (N 42)" "Some (S (js ''application/pdf''))" demo_env]
  by (simp add: demo_id_field trim_demo_id demo_env_no_fault empty_world_def ready_world_def
      ready_item_fields ready_neq_uploading invalid_status_ready demo_complete)

subsection \<open>The status gate of create-share-link\<close>

text \<open>
  Claim C4. With a valid fileId and an answering metadata store, create-share-link
  answers 404 when the table has no record under the fileId, and 400 with the message
  \<open>not ready: \<close> followed by the current status (\<open>not ready: UPLOADING\<close> for an
  uploading record) when the status is not \<open>READY\<close>; then the only call made is the read
  of the record, so no URL is signed, and the table is unchanged. A response that carries
  a download URL was given for a record that exists and is \<open>READY\<close>.
\<close>

theorem C4_share_status_gate:
  "(p ''fileId'' = JString f \<and> trim f \<noteq> [] \<and> ddb_fault e GetCommand = None
      \<and> table w (trim f) = None \<longrightarrow>
      share cfg e p w =
        (\<lparr>status = 404, body = ErrorJson (js ''not found'')\<rparr>, logged GetCommand w))
   \<and> (p ''fileId'' = JString f \<and> trim f \<noteq> [] \<and> ddb_fault e GetCommand = None
      \<and> table w (trim f) = Some it \<and> it ''status'' \<noteq> Some (S (js ''READY'')) \<longrightarrow>
      share cfg e p w =
        (\<lparr>status = 400, body = ErrorJson (js ''not ready: '' @ ToString (it ''status''))\<rparr>,
         logged GetCommand w)
      \<and> table (snd (share cfg e p w)) = table w
      \<and> calls (snd (share cfg e p w)) = calls w @ [GetCommand])
   \<and> (p ''fileId'' = JString f \<and> trim f \<noteq> [] \<and> ddb_fault e GetCommand = None
      \<and> table w (trim f) = Some it \<and> it ''status'' = Some (S (js ''UPLOADING'')) \<longrightarrow>
      fst (share cfg e p w) =
        \<lparr>status = 400, body = ErrorJson (js ''not ready: UPLOADING'')\<rparr>)
   \<and> (share cfg e p w = (r, w') \<and> body r = ShareJson fid url ex \<longrightarrow>
      (\<exists>it'. table w fid = Some it' \<and> it' ''status'' = Some (S (js ''READY''))))"
proof (intro conjI impI)
  assume "p ''fileId'' = JString f \<and> trim f \<noteq> [] \<and> ddb_fault e GetCommand = None
      \<and> table w (trim f) = None"
  then show "share cfg e p w =
        (\<lparr>status = 404, body = ErrorJson (js ''not found'')\<rparr>, logged GetCommand w)"
    by (simp add: share_missing)
next
  assume a: "p ''fileId'' = JString f \<and> trim f \<noteq> [] \<and> ddb_fault e GetCommand = None
      \<and> table w (trim f) = Some it \<and> it ''status'' \<noteq> Some (S (js ''READY''))"
  then show eq: "share cfg e p w =
        (\<lparr>status = 400, body = ErrorJson (js ''not ready: '' @ ToString (it ''status''))\<rparr>,
         logged GetCommand w)"
    by (simp add: share_not_ready)
  show "table (snd (share cfg e p w)) = table w"
    by (simp add: eq)
  show "calls (snd (share cfg e p w)) = calls w @ [GetCommand]"
    by (simp add: eq)
next
  assume a: "p ''fileId'' = JString f \<and> trim f \<noteq> [] \<and> ddb_fault e GetCommand = None
      \<and> table w (trim f) = Some it \<and> it ''status'' = Some (S (js ''UPLOADING''))"
  then have "it ''status'' \<noteq> Some (S (js ''READY''))"
    using ready_neq_uploading by auto
  with a show "fst (share cfg e p w) =
        \<lparr>status = 400, body = ErrorJson (js ''not ready: UPLOADING'')\<rparr>"
    using share_not_ready [of p f e w it cfg] by (simp add: not_ready_uploading)
next
  assume "share cfg e p w = (r, w') \<and> body r = ShareJson fid url ex"
  then show "\<exists>it'. table w fid = Some it' \<and> it' ''status'' = Some (S (js ''READY''))"
    using share_success [of cfg e p w r w' fid url ex] by blast
qed

text \<open>
  An instance: no record, an uploading record and a \<open>READY\<close> record of the concrete
  service.
\<close>

theorem C4_share_status_gate_witness:
  "share demo_cfg demo_env demo_id empty_world =
     (\<lparr>status = 404, body = ErrorJson (js ''not found'')\<rparr>, logged GetCommand empty_world)
   \<and> share demo_cfg demo_env demo_id uploading_world =
     (\<lparr>status = 400, body = ErrorJson (js ''not ready: UPLOADING'')\<rparr>,
      logged GetCommand uploading_world)
   \<and> table (snd (share demo_cfg demo_env demo_id uploading_world)) = table uploading_world
   \<and> (\<exists>it'. table ready_world (js ''id-1'') = Some it' \<and> it' ''status'' = Some (S (js ''READY'')))"
  using C4_share_status_gate [where p = demo_id and f = "js ''id-1''" and e = demo_env
      and w = empty_world and cfg = demo_cfg]
    C4_share_status_gate [where p = demo_id and f = "js ''id-1''" and e = demo_env
      and w = uploading_world and cfg = demo_cfg and it = uploading_item]
    C4_share_status_gate [where p = demo_id and e = demo_env and w = ready_world and cfg = demo_cfg
      and r = "fst (share demo_cfg demo_env demo_id ready_world)"
      and w' = "snd (share demo_cfg demo_env demo_id ready_world)"
      and fid = "js ''id-1''"
      and url = "js ''https://get/'' @ content_disposition (Some (S (js ''my file (1).pdf'')))"
      and ex = 1704068100]
  by (simp add: demo_id_field trim_demo_id demo_env_no_fault empty_world_def uploading_world_def
      uploading_item_fields ready_neq_uploading [symmetric] not_ready_uploading demo_share)

subsection \<open>The download counter\<close>

text \<open>
  Claim C5. A create-share-link call for the fileId of a \<open>READY\<close> record, in which the
  URL is signed and the stores answer, succeeds, and the table afterwards is the table
  before with that record's \<open>downloadCount\<close> set to the old count plus one, a missing
  count taken as 0. No other attribute of the record and no other record changes.
  Conversely, every call that answers with a download URL was such a call, on the record
  under the fileId of the request.
\<close>

theorem C5_share_increments_downloadCount:
  "(p ''fileId'' = JString f \<and> trim f \<noteq> [] \<and> ddb_fault e GetCommand = None
      \<and> table w (trim f) = Some it \<and> it ''status'' = Some (S (js ''READY''))
      \<and> getSignedUrl_get e (it ''s3Bucket'') (it ''s3Key'')
           (content_disposition (it ''originalFilename'')) (PRESIGN_EXPIRES_SECONDS cfg) = Inr url
      \<and> ddb_fault e UpdateCommand = None
      \<and> (it ''downloadCount'' = None \<and> n = 0 \<or> it ''downloadCount'' = Some (N n))
      \<longrightarrow>
      share cfg e p w =
        (\<lparr>status = 200,
          body = ShareJson (trim f) url (Date_now e div 1000 + PRESIGN_EXPIRES_SECONDS cfg)\<rparr>,
         \<lparr>table = (table w)(trim f \<mapsto> it(''downloadCount'' \<mapsto> N (n + 1))),
           calls = calls w @ [GetCommand, GetSignedUrlGet, UpdateCommand]\<rparr>))
   \<and> (share cfg e p w = (r, w') \<and> body r = ShareJson fid url' ex \<longrightarrow>
      (\<exists>g it' m. p ''fileId'' = JString g \<and> fid = trim g
         \<and> table w fid = Some it' \<and> it' ''status'' = Some (S (js ''READY''))
         \<and> (it' ''downloadCount'' = None \<and> m = 0 \<or> it' ''downloadCount'' = Some (N m))
         \<and> table w' = (table w)(fid \<mapsto> it'(''downloadCount'' \<mapsto> N (m + 1)))))"
proof (intro conjI impI)
  assume "p ''fileId'' = JString f \<and> trim f \<noteq> [] \<and> ddb_fault e GetCommand = None
      \<and> table w (trim f) = Some it \<and> it ''status'' = Some (S (js ''READY''))
      \<and> getSignedUrl_get e (it ''s3Bucket'') (it ''s3Key'')
           (content_disposition (it ''originalFilename'')) (PRESIGN_EXPIRES_SECONDS cfg) = Inr url
      \<and> ddb_fault e UpdateCommand = None
      \<and> (it ''downloadCount'' = None \<and> n = 0 \<or> it ''downloadCount'' = Some (N n))"
  then show "share cfg e p w =
        (\<lparr>status = 200,
          body = ShareJson (trim f) url (Date_now e div 1000 + PRESIGN_EXPIRES_SECONDS cfg)\<rparr>,
         \<lparr>table = (table w)(trim f \<mapsto> it(''downloadCount'' \<mapsto> N (n + 1))),
           calls = calls w @ [GetCommand, GetSignedUrlGet, UpdateCommand]\<rparr>)"
    using share_ok [of p f e w it cfg url n] by blast
next
  assume "share cfg e p w = (r, w') \<and> body r = ShareJson fid url' ex"
  then obtain g it' m where "p ''fileId'' = JString g" "fid = trim g"
    and "table w fid = Some it'" "it' ''status'' = Some (S (js ''READY''))"
    and "it' ''downloadCount'' = None \<and> m = 0 \<or> it' ''downloadCount'' = Some (N m)"
    and w': "w' = \<lparr>table = (table w)(fid \<mapsto> it'(''downloadCount'' \<mapsto> N (m + 1))),
               calls = calls w @ [GetCommand, GetSignedUrlGet, UpdateCommand]\<rparr>"
    using share_success [of cfg e p w r w' fid url' ex] by blast
  moreover from w' have "table w' = (table w)(fid \<mapsto> it'(''downloadCount'' \<mapsto> N (m + 1)))"
    by simp
  ultimately show "\<exists>g it' m. p ''fileId'' = JString g \<and> fid = trim g
         \<and> table w fid = Some it' \<and> it' ''status'' = Some (S (js ''READY''))
         \<and> (it' ''downloadCount'' = None \<and> m = 0 \<or> it' ''downloadCount'' = Some (N m))
         \<and> table w' = (table w)(fid \<mapsto> it'(''downloadCount'' \<mapsto> N (m + 1)))"
    by blast
qed

text \<open>
  An instance: sharing the \<open>READY\<close> record of the concrete service, whose count was 0.
\<close>

theorem C5_share_increments_witness:
  "share demo_cfg demo_env demo_id ready_world =
     (\<lparr>status = 200,
       body = ShareJson (js ''id-1'')
                (js ''https://get/'' @ content_disposition (Some (S (js ''my file (1).pdf''))))
                1704068100\<rparr>,
      \<lparr>table = [js ''id-1'' \<mapsto> ready_item(''downloadCount'' \<mapsto> N 1)],
        calls = [GetCommand, GetSignedUrlGet, UpdateCommand]\<rparr>)
   \<and> ready_item ''downloadCount'' = Some (N 0)"
  using C5_share_increments_downloadCount [where p = demo_id and f = "js ''id-1''" and e = demo_env
      and w = ready_world and it = ready_item and cfg = demo_cfg and n = 0
      and url = "js ''https://get/'' @ content_disposition (Some (S (js ''my file (1).pdf'')))"]
  by (simp add: demo_id_field trim_demo_id ready_item_fields demo_env_def demo_cfg_def
      ready_world_def)

subsection \<open>The record presign-upload creates\<close>

text \<open>
  Claim C6, as the code has it. For every valid pair of originalFilename and
  contentType, when the upload URL is signed and the put is accepted, presign-upload
  writes exactly one record, under the identifier \<open>uuidv4()\<close> returns, and leaves the
  record under every other key as it was. The record written has status \<open>UPLOADING\<close>,
  \<open>downloadCount\<close> 0, \<open>createdAt\<close> the time read at \<open>new Date()\<close> and \<open>expiresAt\<close> the
  clock in whole epoch seconds plus the expiry window; the response carries the fileId,
  the upload URL, the storage key and that \<open>expiresAt\<close>. The put is unconditional: the
  record is new, and every record the table held is kept, when the identifier is not yet
  a key of the table, which the handler does not check.
\<close>

theorem C6_presign_creates_record:
  assumes "b ''originalFilename'' = JString name" and "trim name \<noteq> []"
    and "b ''contentType'' = JString ctype" and "trim ctype \<noteq> []"
    and "key = js ''uploads/'' @ uuidv4 e @ js ''/'' @ safeName (trim name)"
    and "getSignedUrl_put e (S3_BUCKET cfg) key (trim ctype) (PRESIGN_EXPIRES_SECONDS cfg) = Inr url"
    and "ddb_fault e PutCommand = None"
    and "expiresAt = Date_now e div 1000 + PRESIGN_EXPIRES_SECONDS cfg"
  shows "\<exists>it. presign_upload cfg e b w =
       (\<lparr>status = 200, body = PresignJson (uuidv4 e) url key expiresAt\<rparr>,
        \<lparr>table = (table w)(uuidv4 e \<mapsto> it), calls = calls w @ [GetSignedUrlPut, PutCommand]\<rparr>)
     \<and> it ''fileId'' = Some (S (uuidv4 e))
     \<and> it ''status'' = Some (S (js ''UPLOADING''))
     \<and> it ''downloadCount'' = Some (N 0)
     \<and> it ''createdAt'' = Some (S (new_Date_toISOString e))
     \<and> it ''expiresAt'' = Some (N expiresAt)
     \<and> it ''s3Key'' = Some (S key)
     \<and> dom (table (snd (presign_upload cfg e b w))) = insert (uuidv4 e) (dom (table w))
     \<and> (\<forall>k. k \<noteq> uuidv4 e \<longrightarrow> table (snd (presign_upload cfg e b w)) k = table w k)
     \<and> (table w (uuidv4 e) = None \<longrightarrow>
          (\<forall>k it0. table w k = Some it0 \<longrightarrow> table (snd (presign_upload cfg e b w)) k = Some it0))"
proof -
  define it where "it = new_item (uuidv4 e) (S3_BUCKET cfg) key (trim name) (trim ctype)
             (new_Date_toISOString e) expiresAt"
  have eq: "presign_upload cfg e b w =
       (\<lparr>status = 200, body = PresignJson (uuidv4 e) url key expiresAt\<rparr>,
        \<lparr>table = (table w)(uuidv4 e \<mapsto> it), calls = calls w @ [GetSignedUrlPut, PutCommand]\<rparr>)"
    using presign_upload_ok [of b name ctype key e cfg url w] assms by (simp add: it_def)
  have fields: "it ''fileId'' = Some (S (uuidv4 e))" "it ''status'' = Some (S (js ''UPLOADING''))"
    "it ''downloadCount'' = Some (N 0)" "it ''createdAt'' = Some (S (new_Date_toISOString e))"
    "it ''expiresAt'' = Some (N expiresAt)" "it ''s3Key'' = Some (S key)"
    by (simp_all add: it_def new_item_def)
  have dom: "dom (table (snd (presign_upload cfg e b w))) = insert (uuidv4 e) (dom (table w))"
    by (simp add: eq)
  have others: "\<forall>k. k \<noteq> uuidv4 e \<longrightarrow> table (snd (presign_upload cfg e b w)) k = table w k"
    by (simp add: eq)
  have keep: "table w (uuidv4 e) = None \<longrightarrow>
      (\<forall>k it0. table w k = Some it0 \<longrightarrow> table (snd (presign_upload cfg e b w)) k = Some it0)"
    by (auto simp: eq)
  show ?thesis
    by (rule exI [of _ it]) (intro conjI eq fields dom others keep)
qed

text \<open>
  An instance: the first upload of the concrete service.
\<close>

theorem C6_presign_creates_record_witness:
  "\<exists>it. presign_upload demo_cfg demo_env spec_upload empty_world =
       (\<lparr>status = 200,
         body = PresignJson (js ''id-1'') (js ''https://put/uploads/id-1/my_file_1_.pdf'')
                  (js ''uploads/id-1/my_file_1_.pdf'') 1704068100\<rparr>,
        \<lparr>table = (table empty_world)(js ''id-1'' \<mapsto> it),
          calls = calls empty_world @ [GetSignedUrlPut, PutCommand]\<rparr>)
     \<and> it ''status'' = Some (S (js ''UPLOADING''))
     \<and> it ''downloadCount'' = Some (N 0)
     \<and> it ''createdAt'' = Some (S (js ''2024-01-01T00:00:00.123Z''))
     \<and> it ''expiresAt'' = Some (N 1704068100)
     \<and> dom (table (snd (presign_upload demo_cfg demo_env spec_upload empty_world))) =
         insert (js ''id-1'') (dom (table empty_world))"
proof -
  have name: "spec_upload ''originalFilename'' = JString (js ''my file (1).pdf'')"
    and ctype: "spec_upload ''contentType'' = JString (js ''application/pdf'')"
    by (simp_all add: spec_upload_def json_object_def)
  have t1: "trim (js ''my file (1).pdf'') = js ''my file (1).pdf''"
    and t2: "trim (js ''application/pdf'') = js ''application/pdf''"
    by (simp_all add: js_def trim_def is_white_space_def)
  have n1: "js ''my file (1).pdf'' \<noteq> []" and n2: "js ''application/pdf'' \<noteq> []"
    by (simp_all add: js_def)
  have key: "js ''uploads/id-1/my_file_1_.pdf'' =
      js ''uploads/'' @ uuidv4 demo_env @ js ''/'' @ safeName (trim (js ''my file (1).pdf''))"
    by (simp add: t1 safeName_example demo_env_def js_append [symmetric])
  have url: "getSignedUrl_put demo_env (S3_BUCKET demo_cfg) (js ''uploads/id-1/my_file_1_.pdf'')
      (trim (js ''application/pdf'')) (PRESIGN_EXPIRES_SECONDS demo_cfg)
      = Inr (js ''https://put/uploads/id-1/my_file_1_.pdf'')"
    by (simp add: demo_env_def js_append [symmetric])
  have ex: "(1704068100::int) = Date_now demo_env div 1000 + PRESIGN_EXPIRES_SECONDS demo_cfg"
    by (simp add: demo_env_def demo_cfg_def)
  have tn: "trim (js ''my file (1).pdf'') \<noteq> []" "trim (js ''application/pdf'') \<noteq> []"
    by (simp_all add: t1 t2 n1 n2)
  have created: "new_Date_toISOString demo_env = js ''2024-01-01T00:00:00.123Z''"
    by (simp add: demo_env_def)
  from C6_presign_creates_record [OF name tn(1) ctype tn(2) key url demo_env_no_fault ex, of empty_world]
  obtain it where "presign_upload demo_cfg demo_env spec_upload empty_world =
       (\<lparr>status = 200,
         body = PresignJson (uuidv4 demo_env) (js ''https://put/uploads/id-1/my_file_1_.pdf'')
                  (js ''uploads/id-1/my_file_1_.pdf'') 1704068100\<rparr>,
        \<lparr>table = (table empty_world)(uuidv4 demo_env \<mapsto> it),
          calls = calls empty_world @ [GetSignedUrlPut, PutCommand]\<rparr>)"
    and "it ''status'' = Some (S (js ''UPLOADING''))"
    and "it ''downloadCount'' = Some (N 0)"
    and "it ''createdAt'' = Some (S (new_Date_toISOString demo_env))"
    and "it ''expiresAt'' = Some (N 1704068100)"
    and "dom (table (snd (presign_upload demo_cfg demo_env spec_upload empty_world))) =
         insert (uuidv4 demo_env) (dom (table empty_world))"
    by blast
  then show ?thesis
    unfolding demo_env_uuid created by blast
qed

text \<open>
  When the identifier \<open>uuidv4()\<close> returns is already the key of a \<open>READY\<close> record, the
  put replaces that record by an \<open>UPLOADING\<close> one and the table gains no key.
\<close>

theorem C6_colliding_id_counterexample:
  "table ready_world (js ''id-1'') = Some ready_item
   \<and> ready_item ''status'' = Some (S (js ''READY''))
   \<and> uuidv4 demo_env = js ''id-1''
   \<and> presign_upload demo_cfg demo_env spec_upload ready_world =
     (\<lparr>status = 200,
       body = PresignJson (js ''id-1'') (js ''https://put/uploads/id-1/my_file_1_.pdf'')
                (js ''uploads/id-1/my_file_1_.pdf'') 1704068100\<rparr>,
      \<lparr>table = [js ''id-1'' \<mapsto> uploading_item], calls = [GetSignedUrlPut, PutCommand]\<rparr>)
   \<and> uploading_item ''status'' = Some (S (js ''UPLOADING''))
   \<and> js ''UPLOADING'' \<noteq> js ''READY''
   \<and> dom (table (snd (presign_upload demo_cfg demo_env spec_upload ready_world))) =
       dom (table ready_world)"
proof -
  have before: "table ready_world (js ''id-1'') = Some ready_item"
    and dom_before: "dom (table ready_world) = {js ''id-1''}"
    by (simp_all add: ready_world_def)
  have dom_after: "dom (table (snd (presign_upload demo_cfg demo_env spec_upload ready_world))) =
      {js ''id-1''}"
    by (simp add: ready_presign)
  have neq: "js ''UPLOADING'' \<noteq> js ''READY''"
    using ready_neq_uploading by simp
  from before ready_item_fields(1) demo_env_uuid ready_presign uploading_item_fields(1) neq
    dom_after dom_before
  show ?thesis by (simp only: simp_thms)
qed

subsection \<open>The status only moves forward\<close>



subsection \<open>Required fields\<close>

text \<open>
  Claim C8, as the code has it. A request whose required field is missing, not a
  string, or blank after trimming fails with status 400 before any call to a store (the
  world, with its table and its log of calls, is returned as it was). The message is
  \<open><field> is required\<close> for the first field that fails, in the order the handler checks
  them: presign-upload names \<open>contentType\<close> only when \<open>originalFilename\<close> is valid.
\<close>

theorem C8_required_fields:
  "(missing_or_blank (b ''originalFilename'') \<longrightarrow>
      presign_upload cfg e b w = (required_response ''originalFilename'', w))
   \<and> (\<not> missing_or_blank (b ''originalFilename'') \<and> missing_or_blank (b ''contentType'') \<longrightarrow>
      presign_upload cfg e b w = (required_response ''contentType'', w))
   \<and> (missing_or_blank (b ''fileId'') \<longrightarrow>
      complete_upload cfg e b w = (required_response ''fileId'', w)
      \<and> get_metadata cfg e b w = (required_response ''fileId'', w)
      \<and> share cfg e b w = (required_response ''fileId'', w))
   \<and> required_response name =
      \<lparr>status = 400, body = ErrorJson (js name @ js '' is required'')\<rparr>"
  by (simp add: presign_upload_invalid_name presign_upload_invalid_type complete_upload_invalid
      get_metadata_invalid share_invalid required_response_def)

text \<open>
  An instance: a blank originalFilename, a missing contentType, and a fileId that is a
  number.
\<close>

theorem C8_required_fields_witness:
  "presign_upload demo_cfg demo_env blank_name_upload empty_world =
     (\<lparr>status = 400, body = ErrorJson (js ''originalFilename is required'')\<rparr>, empty_world)
   \<and> presign_upload demo_cfg demo_env no_type_upload empty_world =
     (\<lparr>status = 400, body = ErrorJson (js ''contentType is required'')\<rparr>, empty_world)
   \<and> complete_upload demo_cfg demo_env numeric_id ready_world =
     (\<lparr>status = 400, body = ErrorJson (js ''fileId is required'')\<rparr>, ready_world)
   \<and> get_metadata demo_cfg demo_env numeric_id ready_world =
     (\<lparr>status = 400, body = ErrorJson (js ''fileId is required'')\<rparr>, ready_world)
   \<and> share demo_cfg demo_env numeric_id ready_world =
     (\<lparr>status = 400, body = ErrorJson (js ''fileId is required'')\<rparr>, ready_world)"
proof -
  have fields: "blank_name_upload ''originalFilename'' = JString (js ''   '')"
    "no_type_upload ''originalFilename'' = JString (js ''a.txt'')"
    "no_type_upload ''contentType'' = JUndefined"
    "numeric_id ''fileId'' = JNumber 7"
    by (simp_all add: blank_name_upload_def no_type_upload_def numeric_id_def json_object_def)
  have msgs: "js ''originalFilename'' @ js '' is required'' = js ''originalFilename is required''"
    "js ''contentType'' @ js '' is required'' = js ''contentType is required''"
    "js ''fileId'' @ js '' is required'' = js ''fileId is required''"
    by (simp_all add: js_append [symmetric])
  show ?thesis
    using C8_required_fields [where b = blank_name_upload and cfg = demo_cfg and e = demo_env
        and w = empty_world and name = "''originalFilename''"]
      C8_required_fields [where b = no_type_upload and cfg = demo_cfg and e = demo_env
        and w = empty_world and name = "''contentType''"]
      C8_required_fields [where b = numeric_id and cfg = demo_cfg and e = demo_env
        and w = ready_world and name = "''fileId''"]
    by (simp add: fields blank_examples msgs)
qed

text \<open>
  When both fields of presign-upload are missing, \<open>contentType\<close> is missing and the
  message names \<open>originalFilename\<close>, not \<open>contentType\<close>.
\<close>

theorem C8_both_missing_counterexample:
  "missing_or_blank (json_object [] ''contentType'')
   \<and> presign_upload demo_cfg demo_env (json_object []) empty_world =
     (\<lparr>status = 400, body = ErrorJson (js ''originalFilename is required'')\<rparr>, empty_world)
   \<and> js ''originalFilename is required'' \<noteq> js ''contentType is required''"
proof -
  have "json_object [] ''contentType'' = JUndefined" "json_object [] ''originalFilename'' = JUndefined"
    by (simp_all add: json_object_def)
  then show ?thesis
    using presign_upload_invalid_name [of "json_object []" demo_cfg demo_env empty_world]
    by (simp add: blank_examples required_response_def js_append [symmetric]) (simp add: js_def)
qed

subsection \<open>A failing object store\<close>

text \<open>
  Claim C9. When the call to the object store fails, the handler answers with the
  error handler's response for the thrown error and the table is as before: in
  presign-upload the failure of signing the PUT URL comes before the put of the record,
  in complete-upload the failure of the head call comes before the update, and in
  create-share-link the failure of signing the GET URL comes before the update of
  \<open>downloadCount\<close>. The log shows no write to the metadata store.
\<close>

theorem C9_store_failure_leaves_table:
  "(b ''originalFilename'' = JString name \<and> trim name \<noteq> []
      \<and> b ''contentType'' = JString ctype \<and> trim ctype \<noteq> []
      \<and> getSignedUrl_put e (S3_BUCKET cfg)
           (js ''uploads/'' @ uuidv4 e @ js ''/'' @ safeName (trim name))
           (trim ctype) (PRESIGN_EXPIRES_SECONDS cfg) = Inl err \<longrightarrow>
      presign_upload cfg e b w = (error_handler err, logged GetSignedUrlPut w)
      \<and> table (snd (presign_upload cfg e b w)) = table w)
   \<and> (b ''fileId'' = JString f \<and> trim f \<noteq> [] \<and> ddb_fault e GetCommand = None
      \<and> table w (trim f) = Some it \<and> it ''status'' = Some (S (js ''UPLOADING''))
      \<and> headObject e (it ''s3Bucket'') (it ''s3Key'') = Inl err \<longrightarrow>
      complete_upload cfg e b w =
        (error_handler err, logged HeadObjectCommand (logged GetCommand w))
      \<and> table (snd (complete_upload cfg e b w)) = table w)
   \<and> (b ''fileId'' = JString f \<and> trim f \<noteq> [] \<and> ddb_fault e GetCommand = None
      \<and> table w (trim f) = Some it \<and> it ''status'' = Some (S (js ''READY''))
      \<and> getSignedUrl_get e (it ''s3Bucket'') (it ''s3Key'')
           (content_disposition (it ''originalFilename'')) (PRESIGN_EXPIRES_SECONDS cfg) = Inl err \<longrightarrow>
      share cfg e b w = (error_handler err, logged GetSignedUrlGet (logged GetCommand w))
      \<and> table (snd (share cfg e b w)) = table w)"
proof (intro conjI impI)
  assume "b ''originalFilename'' = JString name \<and> trim name \<noteq> []
      \<and> b ''contentType'' = JString ctype \<and> trim ctype \<noteq> []
      \<and> getSignedUrl_put e (S3_BUCKET cfg)
           (js ''uploads/'' @ uuidv4 e @ js ''/'' @ safeName (trim name))
           (trim ctype) (PRESIGN_EXPIRES_SECONDS cfg) = Inl err"
  then show eq: "presign_upload cfg e b w = (error_handler err, logged GetSignedUrlPut w)"
    by (simp add: presign_upload_sign_fails)
  show "table (snd (presign_upload cfg e b w)) = table w"
    by (simp add: eq)
next
  assume "b ''fileId'' = JString f \<and> trim f \<noteq> [] \<and> ddb_fault e GetCommand = None
      \<and> table w (trim f) = Some it \<and> it ''status'' = Some (S (js ''UPLOADING''))
      \<and> headObject e (it ''s3Bucket'') (it ''s3Key'') = Inl err"
  then show eq: "complete_upload cfg e b w =
        (error_handler err, logged HeadObjectCommand (logged GetCommand w))"
    by (simp add: complete_upload_head_fails)
  show "table (snd (complete_upload cfg e b w)) = table w"
    by (simp add: eq)
next
  assume "b ''fileId'' = JString f \<and> trim f \<noteq> [] \<and> ddb_fault e GetCommand = None
      \<and> table w (trim f) = Some it \<and> it ''status'' = Some (S (js ''READY''))
      \<and> getSignedUrl_get e (it ''s3Bucket'') (it ''s3Key'')
           (content_disposition (it ''originalFilename'')) (PRESIGN_EXPIRES_SECONDS cfg) = Inl err"
  then show eq: "share cfg e b w = (error_handler err, logged GetSignedUrlGet (logged GetCommand w))"
    by (simp add: share_sign_fails)
  show "table (snd (share cfg e b w)) = table w"
    by (simp add: eq)
qed

text \<open>
  An instance: the three handlers of the concrete service with an object store that
  always fails.
\<close>

theorem C9_store_failure_witness:
  "presign_upload demo_cfg failing_env spec_upload empty_world =
     (\<lparr>status = 500, body = ErrorJson (js ''CredentialsProviderError'')\<rparr>,
      logged GetSignedUrlPut empty_world)
   \<and> complete_upload demo_cfg failing_env demo_id uploading_world =
     (\<lparr>status = 500, body = ErrorJson (js ''CredentialsProviderError'')\<rparr>,
      logged HeadObjectCommand (logged GetCommand uploading_world))
   \<and> table (snd (complete_upload demo_cfg failing_env demo_id uploading_world)) =
     table uploading_world
   \<and> share demo_cfg failing_env demo_id ready_world =
     (\<lparr>status = 500, body = ErrorJson (js ''CredentialsProviderError'')\<rparr>,
      logged GetSignedUrlGet (logged GetCommand ready_world))
   \<and> table (snd (share demo_cfg failing_env demo_id ready_world)) = table ready_world"
proof -
  have name: "spec_upload ''originalFilename'' = JString (js ''my file (1).pdf'')"
    and ctype: "spec_upload ''contentType'' = JString (js ''application/pdf'')"
    by (simp_all add: spec_upload_def json_object_def)
  have t: "trim (js ''my file (1).pdf'') \<noteq> []" "trim (js ''application/pdf'') \<noteq> []"
    by (simp_all add: js_def trim_def is_white_space_def)
  have up: "table uploading_world (js ''id-1'') = Some uploading_item"
    and rd: "table ready_world (js ''id-1'') = Some ready_item"
    by (simp_all add: uploading_world_def ready_world_def)
  show ?thesis
    using C9_store_failure_leaves_table [where b = spec_upload and cfg = demo_cfg
        and e = failing_env and w = empty_world and name = "js ''my file (1).pdf''"
        and ctype = "js ''application/pdf''" and err = s3_down]
      C9_store_failure_leaves_table [where b = demo_id and cfg = demo_cfg
        and e = failing_env and w = uploading_world and f = "js ''id-1''"
        and it = uploading_item and err = s3_down]
      C9_store_failure_leaves_table [where b = demo_id and cfg = demo_cfg
        and e = failing_env and w = ready_world and f = "js ''id-1''"
        and it = ready_item and err = s3_down]
    by (simp add: name ctype t up rd demo_id_field trim_demo_id failing_env_fields
        error_handler_s3_down uploading_item_fields ready_item_fields)
qed

subsection \<open>The original file name\<close>

text \<open>
  Claim C10, as the code has it. The record of a successful presign-upload holds under
  \<open>originalFilename\<close> the user-supplied value after \<open>trim\<close>: the value is the stored
  string between a prefix and a suffix of white space, nothing is sanitised, and a value
  without surrounding white space is stored unmodified. A successful create-share-link returns the URL signed for the
  content disposition built from the stored value, which for a stored string \<open>s\<close> is
  \<open>attachment; filename="s"\<close>.
\<close>

theorem C10_original_filename_trimmed:
  "(presign_upload cfg e b w = (r, w') \<and> body r = PresignJson fid url key ex \<longrightarrow>
      (\<exists>name it. b ''originalFilename'' = JString name \<and> table w' fid = Some it
         \<and> it ''originalFilename'' = Some (S (trim name))))
   \<and> (\<exists>pre post. supplied = pre @ trim supplied @ post
        \<and> (\<forall>c\<in>set pre. is_white_space c) \<and> (\<forall>c\<in>set post. is_white_space c))
   \<and> (supplied \<noteq> [] \<and> \<not> is_white_space (hd supplied)
        \<and> \<not> is_white_space (last supplied) \<longrightarrow>
      trim supplied = supplied)
   \<and> (share cfg e2 p w2 = (r2, w2') \<and> body r2 = ShareJson fid2 url2 ex2 \<longrightarrow>
      (\<exists>it. table w2 fid2 = Some it
         \<and> getSignedUrl_get e2 (it ''s3Bucket'') (it ''s3Key'')
              (content_disposition (it ''originalFilename'')) (PRESIGN_EXPIRES_SECONDS cfg) = Inr url2))
   \<and> content_disposition (Some (S stored)) = js ''attachment; filename='' @ [34] @ stored @ [34]"
proof (intro conjI impI)
  assume a: "presign_upload cfg e b w = (r, w') \<and> body r = PresignJson fid url key ex"
  then obtain name ctype where n: "b ''originalFilename'' = JString name" "trim name \<noteq> []"
    and c: "b ''contentType'' = JString ctype" "trim ctype \<noteq> []"
    and rest: "fid = uuidv4 e" "key = js ''uploads/'' @ fid @ js ''/'' @ safeName (trim name)"
      "getSignedUrl_put e (S3_BUCKET cfg) key (trim ctype) (PRESIGN_EXPIRES_SECONDS cfg) = Inr url"
      "ddb_fault e PutCommand = None"
    using presign_upload_success [of cfg e b w r w' fid url key ex] by blast
  have "table (snd (presign_upload cfg e b w)) fid =
      Some (new_item (uuidv4 e) (S3_BUCKET cfg) key (trim name) (trim ctype)
             (new_Date_toISOString e) (Date_now e div 1000 + PRESIGN_EXPIRES_SECONDS cfg))"
    using presign_upload_ok [of b name ctype key e cfg url w] n c rest by simp
  with a have "table w' fid =
      Some (new_item (uuidv4 e) (S3_BUCKET cfg) key (trim name) (trim ctype)
             (new_Date_toISOString e) (Date_now e div 1000 + PRESIGN_EXPIRES_SECONDS cfg))"
    by simp
  moreover have "new_item (uuidv4 e) (S3_BUCKET cfg) key (trim name) (trim ctype)
             (new_Date_toISOString e) (Date_now e div 1000 + PRESIGN_EXPIRES_SECONDS cfg)
             ''originalFilename'' = Some (S (trim name))"
    by (simp add: new_item_def)
  ultimately show "\<exists>name it. b ''originalFilename'' = JString name \<and> table w' fid = Some it
         \<and> it ''originalFilename'' = Some (S (trim name))"
    using n(1) by blast
next
  show "\<exists>pre post. supplied = pre @ trim supplied @ post
        \<and> (\<forall>c\<in>set pre. is_white_space c) \<and> (\<forall>c\<in>set post. is_white_space c)"
    by (rule trim_decomposition)
next
  assume "supplied \<noteq> [] \<and> \<not> is_white_space (hd supplied)
        \<and> \<not> is_white_space (last supplied)"
  then show "trim supplied = supplied"
    by (simp add: trim_unpadded)
next
  assume "share cfg e2 p w2 = (r2, w2') \<and> body r2 = ShareJson fid2 url2 ex2"
  then show "\<exists>it. table w2 fid2 = Some it
         \<and> getSignedUrl_get e2 (it ''s3Bucket'') (it ''s3Key'')
              (content_disposition (it ''originalFilename'')) (PRESIGN_EXPIRES_SECONDS cfg) = Inr url2"
    using share_success [of cfg e2 p w2 r2 w2' fid2 url2 ex2] by blast
next
  show "content_disposition (Some (S stored)) = js ''attachment; filename='' @ [34] @ stored @ [34]"
    by (simp add: content_disposition_def ToString_def)
qed

text \<open>
  An instance: an upload whose file name starts with a space, and sharing the \<open>READY\<close>
  record of the concrete service.
\<close>

theorem C10_original_filename_witness:
  "(\<exists>name it. padded_upload ''originalFilename'' = JString name
       \<and> [js ''id-1'' \<mapsto> uploading_item] (js ''id-1'') = Some it
       \<and> it ''originalFilename'' = Some (S (trim name)))
   \<and> trim (js ''a.txt'') = js ''a.txt''
   \<and> (\<exists>it. table ready_world (js ''id-1'') = Some it
       \<and> getSignedUrl_get demo_env (it ''s3Bucket'') (it ''s3Key'')
            (content_disposition (it ''originalFilename'')) (PRESIGN_EXPIRES_SECONDS demo_cfg)
          = Inr (js ''https://get/'' @ js ''attachment; filename='' @ [34]
                   @ js ''my file (1).pdf'' @ [34]))"
proof -
  have unpadded: "js ''a.txt'' \<noteq> []" "\<not> is_white_space (hd (js ''a.txt''))"
    "\<not> is_white_space (last (js ''a.txt''))"
    by (simp_all add: js_def is_white_space_def)
  show ?thesis
    using C10_original_filename_trimmed [where cfg = demo_cfg and e = demo_env
        and b = padded_upload and w = empty_world
        and r = "fst (presign_upload demo_cfg demo_env padded_upload empty_world)"
        and w' = "snd (presign_upload demo_cfg demo_env padded_upload empty_world)"
        and fid = "js ''id-1''" and url = "js ''https://put/uploads/id-1/my_file_1_.pdf''"
        and key = "js ''uploads/id-1/my_file_1_.pdf''" and ex = 1704068100
        and supplied = "js ''a.txt''"
        and ?e2.0 = demo_env and p = demo_id and ?w2.0 = ready_world
        and ?r2.0 = "fst (share demo_cfg demo_env demo_id ready_world)"
        and w2' = "snd (share demo_cfg demo_env demo_id ready_world)"
        and ?fid2.0 = "js ''id-1''"
        and ?url2.0 = "js ''https://get/'' @ content_disposition (Some (S (js ''my file (1).pdf'')))"
        and ?ex2.0 = 1704068100 and stored = "js ''my file (1).pdf''"]
    by (simp add: padded_presign demo_share unpadded) auto
qed

text \<open>
  The user supplies \<open> my file (1).pdf\<close> with a leading space; the record holds
  \<open>my file (1).pdf\<close>.
\<close>

theorem C10_padded_name_counterexample:
  "padded_upload ''originalFilename'' = JString (js '' my file (1).pdf'')
   \<and> (\<exists>it. table (snd (presign_upload demo_cfg demo_env padded_upload empty_world)) (js ''id-1'')
             = Some it
       \<and> it ''originalFilename'' = Some (S (js ''my file (1).pdf'')))
   \<and> js ''my file (1).pdf'' \<noteq> js '' my file (1).pdf''"
proof -
  have "padded_upload ''originalFilename'' = JString (js '' my file (1).pdf'')"
    by (simp add: padded_upload_def json_object_def)
  moreover have "\<exists>it. table (snd (presign_upload demo_cfg demo_env padded_upload empty_world))
             (js ''id-1'') = Some it
       \<and> it ''originalFilename'' = Some (S (js ''my file (1).pdf''))"
    by (simp add: padded_presign uploading_item_fields)
  moreover have "js ''my file (1).pdf'' \<noteq> js '' my file (1).pdf''"
    by (simp add: js_def)
  ultimately show ?thesis by blast
qed

end
